theory Spec2Isabelle
  imports Main "HOL-Library.AList"
begin

section \<open>Values shared by the components\<close>

text \<open>
  A JavaScript \<^verbatim>\<open>Error\<close> is modelled by its message. A \<^verbatim>\<open>throw\<close> (and, in an
  \<^verbatim>\<open>async\<close> function, a rejected promise) is the \<open>Inl\<close> branch of a sum.
  Strings are lists of ASCII characters; timestamps (\<^verbatim>\<open>Date.now()\<close>,
  \<^verbatim>\<open>new Date()\<close>) are integers handed in by the caller of the model.
\<close>

datatype error = Error string

text \<open>\<^verbatim>\<open>DeviceValue\<close> of \<^verbatim>\<open>adapter/types.ts\<close>; \<open>VUndefined\<close> is what an
  out-of-range array read gives. Buffers and keyed objects are not needed here.\<close>

datatype DeviceValue =
    VBool bool
  | VNum int
  | VStr string
  | VArr "DeviceValue list"
  | VUndefined

datatype DataQuality = Good | Bad | Uncertain

record DataChangeEvent =
  deviceId :: string
  address :: string
  dvalue :: DeviceValue
  timestamp :: int
  quality :: "DataQuality option"

section \<open>Event emitter and event bus (\<^verbatim>\<open>event-bus\<close>)\<close>

text \<open>
  \<^verbatim>\<open>EventBus extends EventEmitter\<close>. Node's emitter keeps, per event name, the array of
  listeners in registration order; \<^verbatim>\<open>emit(name, arg)\<close> calls them synchronously in that
  order and returns whether there was any; an exception of a listener leaves
  \<^verbatim>\<open>emit\<close> at once (nothing in the emitter or in the bus catches it), and an
  \<^verbatim>\<open>'error'\<close> event without listener is thrown (Node's \<^verbatim>\<open>ERR_UNHANDLED_ERROR\<close>,
  here the error \<open>Unhandled error.\<close>).

  A callback is modelled by an identity \<open>lid\<close> and by whether it throws on a given
  argument. What a callback does otherwise is outside the model: the observable
  effect of \<^verbatim>\<open>emit\<close> is the list of callbacks it invoked, in order. Callbacks are
  taken not to call back into the emitter.
\<close>

record 'p listener =
  lid :: nat
  throws :: "'p \<Rightarrow> error option"

fun call_listeners :: "'p listener list \<Rightarrow> 'p \<Rightarrow> nat list \<times> error option" where
  "call_listeners [] p = ([], None)"
| "call_listeners (l # ls) p =
     (case throws l p of
        Some e \<Rightarrow> ([lid l], Some e)
      | None \<Rightarrow> (case call_listeners ls p of (d, r) \<Rightarrow> (lid l # d, r)))"

definition emit :: "(string \<Rightarrow> 'p listener list) \<Rightarrow> string \<Rightarrow> 'p \<Rightarrow> nat list \<times> (error + bool)" where
  "emit L name p =
     (if L name = [] then
        (if name = ''error'' then ([], Inl (Error ''Unhandled error.'')) else ([], Inr False))
      else (case call_listeners (L name) p of
              (d, Some e) \<Rightarrow> (d, Inl e)
            | (d, None) \<Rightarrow> (d, Inr True)))"

definition on :: "(string \<Rightarrow> 'p listener list) \<Rightarrow> string \<Rightarrow> 'p listener \<Rightarrow> (string \<Rightarrow> 'p listener list)" where
  "on L name cb = L(name := L name @ [cb])"

text \<open>The three payload shapes the bus emits.\<close>

datatype payload =
    Data DataChangeEvent
  | ErrorEvent string error int
  | StatusEvent string string int

record EventBus =
  listeners :: "string \<Rightarrow> payload listener list"
  eventCount :: nat
  startTime :: int

definition newEventBus :: "int \<Rightarrow> EventBus" where
  "newEventBus now = \<lparr>listeners = (\<lambda>_. []), eventCount = 0, startTime = now\<rparr>"

text \<open>
  \<^verbatim>\<open>emitData\<close>: the counter is incremented, then
  \<^verbatim>\<open>emit(`data:${deviceId}:${address}`) || emit(`data:${deviceId}`) || emit('data')\<close>.
  JavaScript's \<^verbatim>\<open>||\<close> evaluates its right operand only when the left one is false.
  The result is the bus, the callbacks invoked (in order), and the value returned or the
  exception thrown.
\<close>

definition emitData :: "EventBus \<Rightarrow> DataChangeEvent \<Rightarrow> EventBus \<times> nat list \<times> (error + bool)" where
  "emitData bus event =
     (let bus' = bus\<lparr>eventCount := eventCount bus + 1\<rparr>;
          L = listeners bus'
      in case emit L (''data:'' @ deviceId event @ '':'' @ address event) (Data event) of
           (d1, Inl e) \<Rightarrow> (bus', d1, Inl e)
         | (d1, Inr True) \<Rightarrow> (bus', d1, Inr True)
         | (d1, Inr False) \<Rightarrow>
             (case emit L (''data:'' @ deviceId event) (Data event) of
                (d2, Inl e) \<Rightarrow> (bus', d1 @ d2, Inl e)
              | (d2, Inr True) \<Rightarrow> (bus', d1 @ d2, Inr True)
              | (d2, Inr False) \<Rightarrow>
                  (case emit L ''data'' (Data event) of
                     (d3, r) \<Rightarrow> (bus', d1 @ d2 @ d3, r))))"

definition onData :: "EventBus \<Rightarrow> string \<Rightarrow> payload listener \<Rightarrow> EventBus" where
  "onData bus dev cb = bus\<lparr>listeners := on (listeners bus) (''data:'' @ dev) cb\<rparr>"

definition onDataAddress :: "EventBus \<Rightarrow> string \<Rightarrow> string \<Rightarrow> payload listener \<Rightarrow> EventBus" where
  "onDataAddress bus dev addr cb =
     bus\<lparr>listeners := on (listeners bus) (''data:'' @ dev @ '':'' @ addr) cb\<rparr>"

definition onAllData :: "EventBus \<Rightarrow> payload listener \<Rightarrow> EventBus" where
  "onAllData bus cb = bus\<lparr>listeners := on (listeners bus) ''data'' cb\<rparr>"

definition emitError :: "EventBus \<Rightarrow> string \<Rightarrow> error \<Rightarrow> int \<Rightarrow> nat list \<times> (error + bool)" where
  "emitError bus dev err now = emit (listeners bus) ''error'' (ErrorEvent dev err now)"

definition onError :: "EventBus \<Rightarrow> payload listener \<Rightarrow> EventBus" where
  "onError bus cb = bus\<lparr>listeners := on (listeners bus) ''error'' cb\<rparr>"

definition emitStatus :: "EventBus \<Rightarrow> string \<Rightarrow> string \<Rightarrow> int \<Rightarrow> nat list \<times> (error + bool)" where
  "emitStatus bus dev status now = emit (listeners bus) ''status'' (StatusEvent dev status now)"

definition onStatus :: "EventBus \<Rightarrow> payload listener \<Rightarrow> EventBus" where
  "onStatus bus cb = bus\<lparr>listeners := on (listeners bus) ''status'' cb\<rparr>"

section \<open>Modbus adapter (\<^verbatim>\<open>modbus-adapter.ts\<close>)\<close>

subsection \<open>Address strings\<close>

text \<open>
  The string operations \<^verbatim>\<open>parseModbusAddress\<close> uses, on ASCII text:
  \<^verbatim>\<open>toUpperCase\<close>, \<^verbatim>\<open>split(':')\<close>, \<^verbatim>\<open>startsWith\<close> and
  \<^verbatim>\<open>parseInt(s, 10)\<close>. \<^verbatim>\<open>parseInt\<close> skips leading white space, reads an
  optional sign and the longest run of decimal digits; without a digit the result is
  \<^verbatim>\<open>NaN\<close>, here \<open>None\<close>. An \<^verbatim>\<open>undefined\<close> argument is first turned into
  the string \<^verbatim>\<open>"undefined"\<close>. Numbers are integers (the precision loss of a double
  beyond \<open>2^53\<close> is not modelled).
\<close>

definition toUpperCase :: "string \<Rightarrow> string" where
  "toUpperCase s =
     map (\<lambda>c. if (97::nat) \<le> of_char c \<and> of_char c \<le> (122::nat)
              then char_of (of_char c - (32::nat)) else c) s"

fun split_on :: "char \<Rightarrow> string \<Rightarrow> string list" where
  "split_on sep [] = [[]]"
| "split_on sep (c # cs) =
     (if c = sep then [] # split_on sep cs
      else (case split_on sep cs of
              [] \<Rightarrow> [[c]]
            | p # ps \<Rightarrow> (c # p) # ps))"

definition startsWith :: "string \<Rightarrow> char \<Rightarrow> bool" where
  "startsWith s c = (case s of [] \<Rightarrow> False | x # _ \<Rightarrow> x = c)"

definition isWhiteSpace :: "char \<Rightarrow> bool" where
  "isWhiteSpace c = (of_char c \<in> {9, 10, 11, 12, 13, 32 :: nat})"

definition isDigit :: "char \<Rightarrow> bool" where
  "isDigit c = ((48::nat) \<le> of_char c \<and> of_char c \<le> (57::nat))"

definition digits_value :: "string \<Rightarrow> int" where
  "digits_value ds = foldl (\<lambda>acc c. 10 * acc + (int (of_char c) - 48)) 0 ds"

definition parseInt :: "string option \<Rightarrow> int option" where
  "parseInt arg =
     (let s = (case arg of None \<Rightarrow> ''undefined'' | Some t \<Rightarrow> t);
          s1 = dropWhile isWhiteSpace s;
          neg = (case s1 of [] \<Rightarrow> False | c # _ \<Rightarrow> c = CHR ''-'');
          s2 = (case s1 of [] \<Rightarrow> []
                | c # r \<Rightarrow> if c = CHR ''-'' \<or> c = CHR ''+'' then r else s1);
          ds = takeWhile isDigit s2
      in if ds = [] then None
         else Some (if neg then - digits_value ds else digits_value ds))"

text \<open>\<^verbatim>\<open>parts[i]\<close> of a JavaScript array: \<^verbatim>\<open>undefined\<close> out of range.\<close>

definition at_index :: "'a list \<Rightarrow> nat \<Rightarrow> 'a option" where
  "at_index xs i = (if i < length xs then Some (xs ! i) else None)"

datatype ModbusAddressType = Coil | Discrete | Holding | Input

definition type_name :: "ModbusAddressType \<Rightarrow> string" where
  "type_name t = (case t of Coil \<Rightarrow> ''coil'' | Discrete \<Rightarrow> ''discrete''
                   | Holding \<Rightarrow> ''holding'' | Input \<Rightarrow> ''input'')"

text \<open>\<open>ma_quantity = None\<close> stands for \<^verbatim>\<open>NaN\<close>.\<close>

record ModbusAddress =
  ma_type :: ModbusAddressType
  ma_address :: int
  ma_quantity :: "int option"

definition address_type :: "string \<Rightarrow> string \<Rightarrow> ModbusAddressType option" where
  "address_type typeStr addr =
     (if typeStr = ''C'' \<or> typeStr = ''COIL'' \<or> typeStr = ''0X'' then Some Coil
      else if typeStr = ''DI'' \<or> typeStr = ''DISCRETE'' \<or> typeStr = ''1X'' then Some Discrete
      else if typeStr = ''HR'' \<or> typeStr = ''HOLDING'' \<or> typeStr = ''4X'' then Some Holding
      else if typeStr = ''IR'' \<or> typeStr = ''INPUT'' \<or> typeStr = ''3X'' then Some Input
      else if startsWith addr (CHR ''0'') then Some Coil
      else if startsWith addr (CHR ''1'') then Some Discrete
      else if startsWith addr (CHR ''3'') then Some Input
      else if startsWith addr (CHR ''4'') then Some Holding
      else None)"

definition parseModbusAddress :: "string \<Rightarrow> error + ModbusAddress" where
  "parseModbusAddress addr =
     (let parts = split_on (CHR '':'') (toUpperCase addr);
          typeStr = (case parts of [] \<Rightarrow> [] | p # _ \<Rightarrow> p)
      in case address_type typeStr addr of
           None \<Rightarrow> Inl (Error (''Unknown Modbus address type: '' @ typeStr))
         | Some ty \<Rightarrow>
             (case parseInt (at_index parts 1) of
                None \<Rightarrow>
                  Inl (Error (''Invalid Modbus address: '' @
                         (case at_index parts 1 of None \<Rightarrow> ''undefined'' | Some t \<Rightarrow> t)))
              | Some a \<Rightarrow>
                  Inr \<lparr>ma_type = ty, ma_address = a,
                       ma_quantity =
                         (case at_index parts 2 of
                            None \<Rightarrow> Some 1
                          | Some q \<Rightarrow> if q = [] then Some 1 else parseInt (Some q))\<rparr>))"

subsection \<open>Adapter state\<close>

datatype ConnectionStatus = Disconnected | Connecting | Connected | ErrorStatus | Reconnecting

datatype ProtocolType = Modbus | Opcua | Mqtt | S7

definition protocol_name :: "ProtocolType \<Rightarrow> string" where
  "protocol_name p = (case p of Modbus \<Rightarrow> ''modbus'' | Opcua \<Rightarrow> ''opcua''
                       | Mqtt \<Rightarrow> ''mqtt'' | S7 \<Rightarrow> ''s7'')"

text \<open>\<^verbatim>\<open>DeviceConfig\<close>: the fields the modelled code reads. Host, port and unit id only
  reach the socket, whose answer is an input of the model.\<close>

record DeviceConfig =
  cfg_deviceId :: string
  cfg_protocol :: ProtocolType
  cfg_timeout :: "int option"

record Metrics =
  readCount :: nat
  writeCount :: nat
  errorCount :: nat
  totalLatency :: int
  lastLatency :: int

text \<open>What a \<^verbatim>\<open>setInterval\<close> timer of \<^verbatim>\<open>subscribe\<close> closes over.\<close>

record PollTimer =
  pt_address :: string
  pt_callback :: "DataChangeEvent listener"
  pt_interval :: int

text \<open>
  The fields of \<^verbatim>\<open>class ModbusAdapter\<close>. \<open>socket\<close> and \<open>client\<close> say whether the
  field is not \<^verbatim>\<open>null\<close>. \<open>subscriptions\<close>, a \<^verbatim>\<open>Map\<close> that \<^verbatim>\<open>disconnect\<close>
  iterates, is the list of its entries in insertion order. The \<^verbatim>\<open>NodeJS.Timeout\<close>
  object that \<^verbatim>\<open>setInterval\<close> returns is represented by a number; \<open>timers\<close> is the
  part of Node's timer table that this adapter filled: \<^verbatim>\<open>setInterval\<close> adds an
  entry under a fresh number (\<open>nextTimer\<close>), \<^verbatim>\<open>clearInterval\<close> removes it, and only
  a timer in the table fires.
\<close>

record ModbusAdapter =
  socket :: bool
  client :: bool
  config :: "DeviceConfig option"
  subscriptions :: "(string \<times> nat) list"
  subscriptionCallbacks :: "string \<rightharpoonup> DataChangeEvent listener"
  connectionStatus :: ConnectionStatus
  lastError :: "string option"
  metrics :: Metrics
  timers :: "nat \<rightharpoonup> PollTimer"
  nextTimer :: nat

definition newModbusAdapter :: ModbusAdapter where
  "newModbusAdapter =
     \<lparr>socket = False, client = False, config = None,
      subscriptions = [], subscriptionCallbacks = Map.empty,
      connectionStatus = Disconnected, lastError = None,
      metrics = \<lparr>readCount = 0, writeCount = 0, errorCount = 0,
                 totalLatency = 0, lastLatency = 0\<rparr>,
      timers = Map.empty, nextTimer = 0\<rparr>"

definition createModbusAdapter :: "unit \<Rightarrow> ModbusAdapter" where
  "createModbusAdapter u = newModbusAdapter"

subsection \<open>connect, disconnect, isConnected\<close>

text \<open>
  An \<^verbatim>\<open>async\<close> method runs synchronously up to its first \<^verbatim>\<open>await\<close> and is
  resumed, in a later turn of the event loop, with the value or the exception of the
  awaited promise. Each such method is modelled by the function of its synchronous
  prefix (\<open>_begin\<close>) and the function of its continuation (\<open>_resume\<close>), which takes
  what the awaited operation gave; running both one after the other is the call with
  nothing else scheduled in between.

  \<^verbatim>\<open>connect\<close> awaits the socket: \<open>None\<close> when it connected, \<open>Some e\<close> when it
  reported \<open>e\<close> or the timeout fired.
\<close>

definition connect_begin :: "ModbusAdapter \<Rightarrow> DeviceConfig \<Rightarrow> ModbusAdapter" where
  "connect_begin a cfg =
     a\<lparr>config := Some cfg, connectionStatus := Connecting, socket := True, client := True\<rparr>"

definition connect_resume :: "ModbusAdapter \<Rightarrow> error option \<Rightarrow> ModbusAdapter \<times> (error + unit)" where
  "connect_resume a outcome =
     (case outcome of
        None \<Rightarrow> (a\<lparr>connectionStatus := Connected, lastError := None\<rparr>, Inr ())
      | Some (Error msg) \<Rightarrow>
          (a\<lparr>connectionStatus := ErrorStatus, lastError := Some msg,
             metrics := (metrics a)\<lparr>errorCount := errorCount (metrics a) + 1\<rparr>\<rparr>,
           Inl (Error msg)))"

definition connect :: "ModbusAdapter \<Rightarrow> DeviceConfig \<Rightarrow> error option \<Rightarrow> ModbusAdapter \<times> (error + unit)" where
  "connect a cfg outcome = connect_resume (connect_begin a cfg) outcome"

definition isConnected :: "ModbusAdapter \<Rightarrow> bool" where
  "isConnected a = (connectionStatus a = Connected \<and> socket a)"


subsection \<open>read and write\<close>

text \<open>
  \<^verbatim>\<open>read\<close> awaits the Modbus client. The request it issued is kept as a
  \<open>ReadRequest\<close>; the device's answer, an input of the continuation, is the list
  \<^verbatim>\<open>response.response.body.values\<close> or the exception of the client call.
\<close>

record ReadRequest =
  rq_type :: ModbusAddressType
  rq_address :: int
  rq_quantity :: int
  rq_startTime :: int

definition read_begin :: "ModbusAdapter \<Rightarrow> string \<Rightarrow> int \<Rightarrow> error + ReadRequest" where
  "read_begin a addr now =
     (if \<not> isConnected a \<or> \<not> client a then Inl (Error ''Not connected to device'')
      else (case parseModbusAddress addr of
              Inl e \<Rightarrow> Inl e
            | Inr m \<Rightarrow>
                Inr \<lparr>rq_type = ma_type m, rq_address = ma_address m,
                     rq_quantity = (case ma_quantity m of
                                      None \<Rightarrow> 1
                                    | Some q \<Rightarrow> if q = 0 then 1 else q),
                     rq_startTime = now\<rparr>))"

definition read_resume ::
  "ModbusAdapter \<Rightarrow> ReadRequest \<Rightarrow> error + DeviceValue list \<Rightarrow> int \<Rightarrow> ModbusAdapter \<times> (error + DeviceValue)" where
  "read_resume a rq response now =
     (case response of
        Inl e \<Rightarrow>
          (a\<lparr>metrics := (metrics a)\<lparr>errorCount := errorCount (metrics a) + 1\<rparr>\<rparr>, Inl e)
      | Inr values \<Rightarrow>
          (a\<lparr>metrics := (metrics a)
               \<lparr>readCount := readCount (metrics a) + 1,
                lastLatency := now - rq_startTime rq,
                totalLatency := totalLatency (metrics a) + (now - rq_startTime rq)\<rparr>\<rparr>,
           Inr (if rq_quantity rq = 1
                then (case values of [] \<Rightarrow> VUndefined | v # _ \<Rightarrow> v)
                else VArr values)))"

definition adapter_read ::
  "ModbusAdapter \<Rightarrow> string \<Rightarrow> int \<Rightarrow> error + DeviceValue list \<Rightarrow> int \<Rightarrow> ModbusAdapter \<times> (error + DeviceValue)" where
  "adapter_read a addr start response finish =
     (case read_begin a addr start of
        Inl e \<Rightarrow> (a, Inl e)
      | Inr rq \<Rightarrow> read_resume a rq response finish)"

text \<open>
  \<^verbatim>\<open>write\<close>: only coils and holding registers are written; the other two types
  throw inside the \<^verbatim>\<open>try\<close>, so that the \<^verbatim>\<open>catch\<close> counts the error. The
  value sent (\<^verbatim>\<open>Boolean(value)\<close>, or the number, or \<^verbatim>\<open>parseInt(String(value), 10)\<close>)
  only reaches the client, whose answer is an input: it is not computed here.
\<close>

record WriteRequest =
  wq_type :: ModbusAddressType
  wq_address :: int
  wq_startTime :: int

definition write_begin :: "ModbusAdapter \<Rightarrow> string \<Rightarrow> DeviceValue \<Rightarrow> int \<Rightarrow> ModbusAdapter \<times> (error + WriteRequest)" where
  "write_begin a addr v now =
     (if \<not> isConnected a \<or> \<not> client a then (a, Inl (Error ''Not connected to device''))
      else (case parseModbusAddress addr of
              Inl e \<Rightarrow> (a, Inl e)
            | Inr m \<Rightarrow>
                if ma_type m = Coil \<or> ma_type m = Holding
                then (a, Inr \<lparr>wq_type = ma_type m, wq_address = ma_address m, wq_startTime = now\<rparr>)
                else (a\<lparr>metrics := (metrics a)\<lparr>errorCount := errorCount (metrics a) + 1\<rparr>\<rparr>,
                      Inl (Error (''Cannot write to '' @ type_name (ma_type m) @ '' address'')))))"

definition write_resume ::
  "ModbusAdapter \<Rightarrow> WriteRequest \<Rightarrow> error option \<Rightarrow> int \<Rightarrow> ModbusAdapter \<times> (error + unit)" where
  "write_resume a wq response now =
     (case response of
        Some e \<Rightarrow>
          (a\<lparr>metrics := (metrics a)\<lparr>errorCount := errorCount (metrics a) + 1\<rparr>\<rparr>, Inl e)
      | None \<Rightarrow>
          (a\<lparr>metrics := (metrics a)
               \<lparr>writeCount := writeCount (metrics a) + 1,
                lastLatency := now - wq_startTime wq,
                totalLatency := totalLatency (metrics a) + (now - wq_startTime wq)\<rparr>\<rparr>,
           Inr ()))"

definition adapter_write ::
  "ModbusAdapter \<Rightarrow> string \<Rightarrow> DeviceValue \<Rightarrow> int \<Rightarrow> error option \<Rightarrow> int \<Rightarrow> ModbusAdapter \<times> (error + unit)" where
  "adapter_write a addr v start response finish =
     (case write_begin a addr v start of
        (a1, Inl e) \<Rightarrow> (a1, Inl e)
      | (a1, Inr wq) \<Rightarrow> write_resume a1 wq response finish)"

subsection \<open>subscribe, unsubscribe and the poll timer\<close>

text \<open>
  \<^verbatim>\<open>subscribe(address, callback, options)\<close>; the last argument is
  \<^verbatim>\<open>options?.interval\<close> (\<open>None\<close> when absent), and \<^verbatim>\<open>|| 1000\<close> replaces an absent
  or zero interval. Neither method has an \<^verbatim>\<open>await\<close>.
\<close>

definition subscribe ::
  "ModbusAdapter \<Rightarrow> string \<Rightarrow> DataChangeEvent listener \<Rightarrow> int option \<Rightarrow> ModbusAdapter \<times> (error + unit)" where
  "subscribe a addr cb interval =
     (if map_of (subscriptions a) addr \<noteq> None
      then (a, Inl (Error (''Already subscribed to '' @ addr)))
      else
        (let iv = (case interval of None \<Rightarrow> 1000 | Some n \<Rightarrow> if n = 0 then 1000 else n);
             t = nextTimer a
         in (a\<lparr>subscriptionCallbacks := (subscriptionCallbacks a)(addr \<mapsto> cb),
               timers := (timers a)(t \<mapsto> \<lparr>pt_address = addr, pt_callback = cb, pt_interval = iv\<rparr>),
               nextTimer := t + 1,
               subscriptions := AList.update addr t (subscriptions a)\<rparr>,
             Inr ())))"


text \<open>
  The timer's callback is \<^verbatim>\<open>async\<close>: a tick calls \<^verbatim>\<open>this.read(address)\<close>, which
  runs up to the client call, and awaits it. \<open>tick_begin\<close> is that prefix (\<open>None\<close>
  for a timer that is not in the table); the pending tick keeps what \<^verbatim>\<open>read\<close>
  did: the request issued, or the exception it threw before issuing one.
  \<open>tick_resume\<close> is the rest: the read's continuation, then the callback with a
  \<^verbatim>\<open>good\<close> event, or with a \<^verbatim>\<open>bad\<close> one from the \<^verbatim>\<open>catch\<close> (which also
  catches an exception of the callback itself). It gives the adapter, the callback
  invocations, and the exception that leaves the timer callback, if any.
\<close>

record PendingTick =
  tk_address :: string
  tk_callback :: "DataChangeEvent listener"
  tk_read :: "error + ReadRequest"

definition tick_begin :: "ModbusAdapter \<Rightarrow> nat \<Rightarrow> int \<Rightarrow> PendingTick option" where
  "tick_begin a t now =
     (case timers a t of
        None \<Rightarrow> None
      | Some pt \<Rightarrow>
          Some \<lparr>tk_address = pt_address pt, tk_callback = pt_callback pt,
                tk_read = read_begin a (pt_address pt) now\<rparr>)"

definition tick_resume ::
  "ModbusAdapter \<Rightarrow> PendingTick \<Rightarrow> error + DeviceValue list \<Rightarrow> int
     \<Rightarrow> ModbusAdapter \<times> (nat \<times> DataChangeEvent) list \<times> error option" where
  "tick_resume a p response now =
     (let (a1, res) = (case tk_read p of
                         Inl e \<Rightarrow> (a, Inl e)
                       | Inr rq \<Rightarrow> read_resume a rq response now);
          dev = (case config a1 of
                   None \<Rightarrow> ''unknown''
                 | Some c \<Rightarrow> if cfg_deviceId c = [] then ''unknown'' else cfg_deviceId c);
          cb = tk_callback p;
          badEvent = \<lparr>deviceId = dev, address = tk_address p, dvalue = VNum 0,
                      timestamp = now, quality = Some Bad\<rparr>
      in case res of
           Inr v \<Rightarrow>
             (let goodEvent = \<lparr>deviceId = dev, address = tk_address p, dvalue = v,
                               timestamp = now, quality = Some Good\<rparr>
              in case throws cb goodEvent of
                   None \<Rightarrow> (a1, [(lid cb, goodEvent)], None)
                 | Some e \<Rightarrow> (a1, [(lid cb, goodEvent), (lid cb, badEvent)], throws cb badEvent))
         | Inl e \<Rightarrow> (a1, [(lid cb, badEvent)], throws cb badEvent))"

text \<open>
  One adapter under its timers: the ticks that await their read, in the order they
  were started, and the callback invocations so far. A step is a timer firing, or the
  client settling the read of the pending tick at a position.
\<close>

record PollState =
  ps_adapter :: ModbusAdapter
  ps_pending :: "PendingTick list"
  ps_delivered :: "(nat \<times> DataChangeEvent) list"

datatype PollEvent =
    TimerFires nat int
  | ReadSettles nat "error + DeviceValue list" int

definition poll_step :: "PollState \<Rightarrow> PollEvent \<Rightarrow> PollState" where
  "poll_step s ev =
     (case ev of
        TimerFires t now \<Rightarrow>
          (case tick_begin (ps_adapter s) t now of
             None \<Rightarrow> s
           | Some p \<Rightarrow> s\<lparr>ps_pending := ps_pending s @ [p]\<rparr>)
      | ReadSettles i response now \<Rightarrow>
          (if i < length (ps_pending s)
           then (case tick_resume (ps_adapter s) (ps_pending s ! i) response now of
                   (a1, d, _) \<Rightarrow>
                     s\<lparr>ps_adapter := a1,
                       ps_pending := take i (ps_pending s) @ drop (Suc i) (ps_pending s),
                       ps_delivered := ps_delivered s @ d\<rparr>)
           else s))"

text \<open>The reads issued to the device and not yet settled.\<close>

definition reads_in_flight :: "PollState \<Rightarrow> nat" where
  "reads_in_flight s = length (filter (\<lambda>p. \<not> isl (tk_read p)) (ps_pending s))"

section \<open>Device manager\<close>

text \<open>
  The three maps of \<^verbatim>\<open>class DeviceManager\<close>, and what its methods reach:
  \<^item> \<open>objects\<close>, the adapter objects created by the factories. An adapter is a
    mutable object to which the registry and the callers of \<^verbatim>\<open>connectDevice\<close> hold
    references: a reference is a number, \<open>objects w r\<close> is the state of the adapter
    with reference \<open>r\<close>, \<open>allocated\<close> is the number of adapters created so far (the
    next fresh reference), and \<open>adapters\<close> maps a device id to a reference. The
    adapters are Modbus adapters, and a factory is the function
    \<^verbatim>\<open>() => new ModbusAdapter()\<close>.
  \<^item> \<open>eventBus\<close>, the singleton of the event bus module.
  \<^item> two logs of what was done to the outside: \<open>connectCalls\<close>, the adapters whose
    \<^verbatim>\<open>connect\<close> was called, in call order, and \<open>delivered\<close>, the callbacks the bus
    invoked, each with its argument.
\<close>

record DeviceManager =
  adapters :: "string \<rightharpoonup> nat"
  factories :: "ProtocolType \<rightharpoonup> (unit \<Rightarrow> ModbusAdapter)"
  configs :: "string \<rightharpoonup> DeviceConfig"
  objects :: "nat \<Rightarrow> ModbusAdapter"
  allocated :: nat
  eventBus :: EventBus
  connectCalls :: "nat list"
  delivered :: "(nat \<times> payload) list"

definition newDeviceManager :: "EventBus \<Rightarrow> DeviceManager" where
  "newDeviceManager bus =
     \<lparr>adapters = Map.empty, factories = Map.empty, configs = Map.empty,
      objects = (\<lambda>_. newModbusAdapter), allocated = 0,
      eventBus = bus, connectCalls = [], delivered = []\<rparr>"

definition registerProtocol :: "DeviceManager \<Rightarrow> ProtocolType \<Rightarrow> (unit \<Rightarrow> ModbusAdapter) \<Rightarrow> DeviceManager" where
  "registerProtocol w protocol factory = w\<lparr>factories := (factories w)(protocol \<mapsto> factory)\<rparr>"

definition addDeviceConfig :: "DeviceManager \<Rightarrow> DeviceConfig \<Rightarrow> DeviceManager \<times> (error + unit)" where
  "addDeviceConfig w cfg =
     (if cfg_deviceId cfg = [] then (w, Inl (Error ''Device ID is required''))
      else (w\<lparr>configs := (configs w)(cfg_deviceId cfg \<mapsto> cfg)\<rparr>, Inr ()))"

text \<open>
  \<^verbatim>\<open>connectDevice\<close> has one \<^verbatim>\<open>await\<close>, on \<^verbatim>\<open>adapter.connect(config)\<close>. Its
  promise is pending on that \<^verbatim>\<open>await\<close> (\<open>AwaitConnect\<close>, with the reference of the
  adapter just created), fulfilled with an adapter, or rejected.
\<close>

datatype ConnectTask = AwaitConnect nat | Resolved nat | Rejected error

definition connectDevice_begin :: "DeviceManager \<Rightarrow> string \<Rightarrow> DeviceManager \<times> ConnectTask" where
  "connectDevice_begin w dev =
     (case configs w dev of
        None \<Rightarrow> (w, Rejected (Error (''Device configuration not found: '' @ dev)))
      | Some cfg \<Rightarrow>
          (case (case adapters w dev of
                   None \<Rightarrow> None
                 | Some r \<Rightarrow> if isConnected (objects w r) then Some r else None) of
             Some r \<Rightarrow> (w, Resolved r)
           | None \<Rightarrow>
               (case factories w (cfg_protocol cfg) of
                  None \<Rightarrow>
                    (w, Rejected (Error (''Protocol not registered: '' @ protocol_name (cfg_protocol cfg))))
                | Some factory \<Rightarrow>
                    (let r = allocated w
                     in (w\<lparr>objects := (objects w)(r := connect_begin (factory ()) cfg),
                           allocated := r + 1,
                           connectCalls := connectCalls w @ [r]\<rparr>,
                         AwaitConnect r)))))"

text \<open>
  The continuation: the rest of \<^verbatim>\<open>adapter.connect\<close>, whose exception leaves
  \<^verbatim>\<open>connectDevice\<close>; then \<^verbatim>\<open>adapter.onError?.(...)\<close>, which the Modbus adapter
  ignores (its \<^verbatim>\<open>onError\<close> has an empty body); then the registry entry and the
  \<^verbatim>\<open>'connected'\<close> status event, whose listeners may throw.
\<close>

definition connectDevice_resume ::
  "DeviceManager \<Rightarrow> string \<Rightarrow> nat \<Rightarrow> error option \<Rightarrow> int \<Rightarrow> DeviceManager \<times> ConnectTask" where
  "connectDevice_resume w dev r outcome now =
     (case connect_resume (objects w r) outcome of
        (a1, Inl e) \<Rightarrow> (w\<lparr>objects := (objects w)(r := a1)\<rparr>, Rejected e)
      | (a1, Inr _) \<Rightarrow>
          (let w1 = w\<lparr>objects := (objects w)(r := a1),
                       adapters := (adapters w)(dev \<mapsto> r)\<rparr>
           in case emitStatus (eventBus w1) dev ''connected'' now of
                (d, Inl e) \<Rightarrow>
                  (w1\<lparr>delivered :=
                         delivered w1 @ map (\<lambda>l. (l, StatusEvent dev ''connected'' now)) d\<rparr>,
                   Rejected e)
              | (d, Inr _) \<Rightarrow>
                  (w1\<lparr>delivered :=
                         delivered w1 @ map (\<lambda>l. (l, StatusEvent dev ''connected'' now)) d\<rparr>,
                   Resolved r)))"

text \<open>One call with nothing else scheduled before it completes.\<close>

definition connectDevice ::
  "DeviceManager \<Rightarrow> string \<Rightarrow> error option \<Rightarrow> int \<Rightarrow> DeviceManager \<times> ConnectTask" where
  "connectDevice w dev outcome now =
     (case connectDevice_begin w dev of
        (w1, AwaitConnect r) \<Rightarrow> connectDevice_resume w1 dev r outcome now
      | (w1, t) \<Rightarrow> (w1, t))"

text \<open>
  Calls made in one turn of the event loop, none awaited before the next is made (as
  in \<^verbatim>\<open>Promise.all(ids.map(id => deviceManager.connectDevice(id)))\<close>): each runs its
  synchronous prefix, in order, before any continuation can run.
\<close>

fun connectDevice_calls :: "DeviceManager \<Rightarrow> string list \<Rightarrow> DeviceManager \<times> ConnectTask list" where
  "connectDevice_calls w [] = (w, [])"
| "connectDevice_calls w (dev # devs) =
     (case connectDevice_begin w dev of
        (w1, t) \<Rightarrow> (case connectDevice_calls w1 devs of (w2, ts) \<Rightarrow> (w2, t # ts)))"


text \<open>\<^verbatim>\<open>DeviceManager.read\<close> and \<^verbatim>\<open>write\<close>: look the adapter up, then
  \<^verbatim>\<open>return adapter.read(address)\<close>; the further arguments are those of the adapter's
  method.\<close>

definition dm_read ::
  "DeviceManager \<Rightarrow> string \<Rightarrow> string \<Rightarrow> int \<Rightarrow> error + DeviceValue list \<Rightarrow> int
     \<Rightarrow> DeviceManager \<times> (error + DeviceValue)" where
  "dm_read w dev addr start response finish =
     (case adapters w dev of
        None \<Rightarrow> (w, Inl (Error (''Device not connected: '' @ dev)))
      | Some r \<Rightarrow>
          (case adapter_read (objects w r) addr start response finish of
             (a1, res) \<Rightarrow> (w\<lparr>objects := (objects w)(r := a1)\<rparr>, res)))"

definition dm_write ::
  "DeviceManager \<Rightarrow> string \<Rightarrow> string \<Rightarrow> DeviceValue \<Rightarrow> int \<Rightarrow> error option \<Rightarrow> int
     \<Rightarrow> DeviceManager \<times> (error + unit)" where
  "dm_write w dev addr v start response finish =
     (case adapters w dev of
        None \<Rightarrow> (w, Inl (Error (''Device not connected: '' @ dev)))
      | Some r \<Rightarrow>
          (case adapter_write (objects w r) addr v start response finish of
             (a1, res) \<Rightarrow> (w\<lparr>objects := (objects w)(r := a1)\<rparr>, res)))"

section \<open>Connection pool (generic over the connection type)\<close>

text \<open>
  \<^verbatim>\<open>PoolConnection<T>\<close> objects are mutable and shared between the pool's map and
  the callers that acquired them: \<open>conns p r\<close> is the state of the object with
  reference \<open>r\<close>, \<open>created\<close> the number of objects made so far.

  \<open>pool\<close> is the \<^verbatim>\<open>Map<string, PoolConnection<T>>\<close> as ECMAScript specifies it: the
  list of its entries in insertion order, where \<^verbatim>\<open>delete\<close> empties an entry in place
  (\<open>None\<close>), \<^verbatim>\<open>set\<close> overwrites the entry of a key it finds and appends otherwise,
  \<^verbatim>\<open>size\<close> counts the entries that are not empty, and an iterator is a position in
  the list that skips empty entries; so an iteration suspended at an \<^verbatim>\<open>await\<close> sees
  what was added and deleted meanwhile.

  A waiter of \<open>waitQueue\<close> is a number: the \<open>waiters\<close>-th promise the pool queued.
  The pool is itself an event emitter; its listeners get the reference of the
  connection.
\<close>

record PoolOptions =
  maxConnections :: int
  minConnections :: int
  acquireTimeoutMs :: int
  idleTimeoutMs :: int

definition DEFAULT_POOL_OPTIONS :: PoolOptions where
  "DEFAULT_POOL_OPTIONS =
     \<lparr>maxConnections = 10, minConnections = 1, acquireTimeoutMs = 5000, idleTimeoutMs = 30000\<rparr>"

record 'c PoolConnection =
  conn_id :: string
  connection :: 'c
  inUse :: bool
  lastUsed :: int
  createdAt :: int

record 'c ConnectionPool =
  pool :: "(string \<times> nat) option list"
  conns :: "nat \<Rightarrow> 'c PoolConnection"
  created :: nat
  waitQueue :: "nat list"
  waiters :: nat
  options :: PoolOptions
  pool_listeners :: "string \<Rightarrow> nat listener list"

fun map_set :: "string \<Rightarrow> nat \<Rightarrow> (string \<times> nat) option list \<Rightarrow> (string \<times> nat) option list" where
  "map_set k v [] = [Some (k, v)]"
| "map_set k v (None # es) = None # map_set k v es"
| "map_set k v (Some (k', v') # es) =
     (if k' = k then Some (k, v) # es else Some (k', v') # map_set k v es)"

definition map_delete :: "string \<Rightarrow> (string \<times> nat) option list \<Rightarrow> (string \<times> nat) option list" where
  "map_delete k es =
     map (\<lambda>e. case e of None \<Rightarrow> None | Some (k', v) \<Rightarrow> if k' = k then None else Some (k', v)) es"

definition map_size :: "(string \<times> nat) option list \<Rightarrow> nat" where
  "map_size es = length (filter (\<lambda>e. e \<noteq> None) es)"

text \<open>The constructor; \<open>dflt\<close> is any connection, for the objects not yet created.\<close>

definition newConnectionPool :: "PoolOptions \<Rightarrow> 'c \<Rightarrow> 'c ConnectionPool" where
  "newConnectionPool opts dflt =
     \<lparr>pool = [],
      conns = (\<lambda>_. \<lparr>conn_id = [], connection = dflt, inUse = False, lastUsed = 0, createdAt = 0\<rparr>),
      created = 0, waitQueue = [], waiters = 0, options = opts,
      pool_listeners = (\<lambda>_. [])\<rparr>"

text \<open>
  The promise of one \<^verbatim>\<open>acquire()\<close> call: suspended in the scan on
  \<^verbatim>\<open>await this.connectionValidator(...)\<close> (with the iterator's position and the
  object under validation), suspended in \<^verbatim>\<open>createConnection\<close> on
  \<^verbatim>\<open>await this.connectionFactory()\<close> (with the id already drawn), suspended on
  \<^verbatim>\<open>await this.createConnection()\<close> once that call has returned its object, queued
  in \<open>waitQueue\<close>, fulfilled, or rejected.
\<close>

datatype AcquireTask =
    AwaitValidator nat nat
  | AwaitFactory string
  | AwaitCreate nat
  | Queued nat
  | Acquired nat
  | Failed error

text \<open>The next entry at or after a position that is not empty and whose object is not
  in use, with its position: where the \<^verbatim>\<open>for\<close> loop of \<^verbatim>\<open>acquire\<close> next reaches its
  \<^verbatim>\<open>await\<close>.\<close>

fun next_idle :: "(nat \<Rightarrow> 'c PoolConnection) \<Rightarrow> (string \<times> nat) option list \<Rightarrow> nat \<Rightarrow> (nat \<times> nat) option" where
  "next_idle h [] i = None"
| "next_idle h (None # es) i = next_idle h es (i + 1)"
| "next_idle h (Some (k, r) # es) i =
     (if \<not> inUse (h r) then Some (i, r) else next_idle h es (i + 1))"

text \<open>
  \<^verbatim>\<open>acquire\<close> from the iterator position \<open>i\<close> up to its next suspension: the rest
  of the scan, then the test \<^verbatim>\<open>this.pool.size < this.options.maxConnections\<close>, then
  either the start of \<^verbatim>\<open>createConnection\<close> or the wait queue. \<open>newId\<close> is the id
  that \<^verbatim>\<open>createConnection\<close> draws from the clock and \<^verbatim>\<open>Math.random\<close> if it is
  called.
\<close>

definition acquire_scan :: "'c ConnectionPool \<Rightarrow> nat \<Rightarrow> string \<Rightarrow> 'c ConnectionPool \<times> AcquireTask" where
  "acquire_scan p i newId =
     (case next_idle (conns p) (drop i (pool p)) i of
        Some (j, r) \<Rightarrow> (p, AwaitValidator (j + 1) r)
      | None \<Rightarrow>
          if int (map_size (pool p)) < maxConnections (options p)
          then (p, AwaitFactory newId)
          else (p\<lparr>waitQueue := waitQueue p @ [waiters p], waiters := waiters p + 1\<rparr>,
                Queued (waiters p)))"

definition acquire :: "'c ConnectionPool \<Rightarrow> string \<Rightarrow> 'c ConnectionPool \<times> AcquireTask" where
  "acquire p newId = acquire_scan p 0 newId"

text \<open>
  The continuations. After the validator: a valid connection is taken; one judged
  invalid (\<^verbatim>\<open>isValid\<close> false) is passed over and the loop goes on; only an
  exception of the validator reaches the \<^verbatim>\<open>catch\<close> with its
  \<^verbatim>\<open>this.pool.delete(poolConn.id)\<close>.
\<close>

definition acquire_validated ::
  "'c ConnectionPool \<Rightarrow> nat \<Rightarrow> nat \<Rightarrow> error + bool \<Rightarrow> int \<Rightarrow> string \<Rightarrow> 'c ConnectionPool \<times> AcquireTask" where
  "acquire_validated p i r isValid now newId =
     (case isValid of
        Inr True \<Rightarrow>
          (p\<lparr>conns := (conns p)(r := (conns p r)\<lparr>inUse := True, lastUsed := now\<rparr>)\<rparr>, Acquired r)
      | Inr False \<Rightarrow> acquire_scan p i newId
      | Inl e \<Rightarrow> acquire_scan (p\<lparr>pool := map_delete (conn_id (conns p r)) (pool p)\<rparr>) i newId)"

text \<open>After the factory: \<^verbatim>\<open>createConnection\<close> makes the object, idle, puts it in the
  map, emits \<^verbatim>\<open>'connection:created'\<close> and returns it.\<close>

definition createConnection_resume ::
  "'c ConnectionPool \<Rightarrow> string \<Rightarrow> error + 'c \<Rightarrow> int \<Rightarrow> 'c ConnectionPool \<times> AcquireTask" where
  "createConnection_resume p newId made now =
     (case made of
        Inl e \<Rightarrow> (p, Failed e)
      | Inr c \<Rightarrow>
          (let r = created p;
               p1 = p\<lparr>conns := (conns p)(r := \<lparr>conn_id = newId, connection = c, inUse = False,
                                                  lastUsed = now, createdAt = now\<rparr>),
                      created := r + 1,
                      pool := map_set newId r (pool p)\<rparr>
           in case emit (pool_listeners p1) ''connection:created'' r of
                (_, Inl e) \<Rightarrow> (p1, Failed e)
              | (_, Inr _) \<Rightarrow> (p1, AwaitCreate r)))"

text \<open>After \<^verbatim>\<open>await this.createConnection()\<close>: \<^verbatim>\<open>poolConn.inUse = true\<close>.\<close>

definition acquire_created :: "'c ConnectionPool \<Rightarrow> nat \<Rightarrow> 'c ConnectionPool \<times> AcquireTask" where
  "acquire_created p r = (p\<lparr>conns := (conns p)(r := (conns p r)\<lparr>inUse := True\<rparr>)\<rparr>, Acquired r)"

text \<open>
  One \<^verbatim>\<open>acquire()\<close> call run from a suspension to its end with nothing else
  scheduled in between: each continuation is fed what it awaited (the validator's
  answer for the connection under validation, the factory's answer, the clock). It
  ends queued, fulfilled or rejected; the scan moves forward in a map whose list
  does not grow meanwhile, so it terminates.
\<close>

function acquire_complete ::
  "('c \<Rightarrow> error + bool) \<Rightarrow> error + 'c \<Rightarrow> int \<Rightarrow> string
     \<Rightarrow> 'c ConnectionPool \<times> AcquireTask \<Rightarrow> 'c ConnectionPool \<times> AcquireTask" where
  "acquire_complete validator made now newId (p, AwaitValidator i r) =
     acquire_complete validator made now newId
       (acquire_validated p i r (validator (connection (conns p r))) now newId)"
| "acquire_complete validator made now newId (p, AwaitFactory k) =
     acquire_complete validator made now newId (createConnection_resume p k made now)"
| "acquire_complete validator made now newId (p, AwaitCreate r) = acquire_created p r"
| "acquire_complete validator made now newId (p, Queued k) = (p, Queued k)"
| "acquire_complete validator made now newId (p, Acquired r) = (p, Acquired r)"
| "acquire_complete validator made now newId (p, Failed e) = (p, Failed e)"
  by pat_completeness auto

termination
proof (relation "measure (\<lambda>(validator, made, now, newId, (p, t)).
          case t of AwaitValidator i r \<Rightarrow> 3 + (length (pool p) - i)
                  | AwaitFactory k \<Rightarrow> 2 | AwaitCreate r \<Rightarrow> 1 | _ \<Rightarrow> 0)", goal_cases)
  case 1
  then show ?case by simp
next
  case (2 validator made now newId p i r)
  have bounds: "next_idle h es k = Some (j, r') \<Longrightarrow> k \<le> j \<and> j < k + length es"
    for h :: "nat \<Rightarrow> 'a PoolConnection" and es k j r'
  proof (induction h es k rule: next_idle.induct)
    case (1 h i)
    then show ?case by simp
  next
    case (2 h es i)
    then show ?case by fastforce
  next
    case (3 h k r es i)
    then show ?case by (fastforce split: if_splits)
  qed
  have scan: "acquire_scan q i newId = (q', AwaitValidator j r') \<Longrightarrow> i < j \<and> j \<le> length (pool q) \<and> q' = q"
    for q q' :: "'a ConnectionPool" and j r'
    unfolding acquire_scan_def
    by (auto split: option.splits prod.splits if_splits dest!: bounds)
  obtain p' t' where v: "acquire_validated p i r (validator (connection (conns p r))) now newId = (p', t')"
    by (cases "acquire_validated p i r (validator (connection (conns p r))) now newId")
  show ?case
  proof (cases t')
    case (AwaitValidator j r')
    from v AwaitValidator have "i < j \<and> j \<le> length (pool p') \<and> length (pool p') = length (pool p)"
      by (auto simp: acquire_validated_def map_delete_def split: sum.splits bool.splits
               dest!: scan)
    then have "3 + (length (pool p') - j) < 3 + (length (pool p) - i)" by arith
    with v AwaitValidator show ?thesis by simp
  qed (simp_all add: v)
next
  case (3 validator made now newId p k)
  then show ?case
    by (auto simp: createConnection_resume_def Let_def split: sum.splits prod.splits)
qed

text \<open>
  \<^verbatim>\<open>release(poolConn)\<close> has no \<^verbatim>\<open>await\<close>. It gives the pool, the waiter it
  resolved with the connection (if any), and the exception of a listener of
  \<^verbatim>\<open>'connection:released'\<close> (if any).
\<close>

definition release ::
  "'c ConnectionPool \<Rightarrow> nat \<Rightarrow> int \<Rightarrow> 'c ConnectionPool \<times> nat option \<times> error option" where
  "release p r now =
     (let p1 = p\<lparr>conns := (conns p)(r := (conns p r)\<lparr>inUse := False, lastUsed := now\<rparr>)\<rparr>;
          (p2, handed) =
            (case waitQueue p1 of
               [] \<Rightarrow> (p1, None)
             | k # ks \<Rightarrow>
                 (p1\<lparr>waitQueue := ks,
                     conns := (conns p1)(r := (conns p1 r)\<lparr>inUse := True\<rparr>)\<rparr>, Some k))
      in case emit (pool_listeners p2) ''connection:released'' r of
           (_, Inl e) \<Rightarrow> (p2, handed, Some e)
         | (_, Inr _) \<Rightarrow> (p2, handed, None))"

text \<open>The timeout of a queued \<^verbatim>\<open>acquire\<close>: a waiter still in the queue is removed
  and its promise rejected with the error given; otherwise nothing happens.\<close>

definition acquire_timeout :: "'c ConnectionPool \<Rightarrow> nat \<Rightarrow> 'c ConnectionPool \<times> error option" where
  "acquire_timeout p k =
     (if k \<in> set (waitQueue p)
      then (p\<lparr>waitQueue := remove1 k (waitQueue p)\<rparr>, Some (Error ''Connection acquire timeout''))
      else (p, None))"

text \<open>\<^verbatim>\<open>getStats().inUse\<close>: the entries of the map whose object is in use.\<close>

definition stats_inUse :: "'c ConnectionPool \<Rightarrow> nat" where
  "stats_inUse p =
     length (filter (\<lambda>e. case e of None \<Rightarrow> False | Some (k, r) \<Rightarrow> inUse (conns p r)) (pool p))"

section \<open>Notions and example values used in the statements\<close>

text \<open>A callback that returns, and one that throws, whatever the argument.\<close>

definition returning :: "nat \<Rightarrow> 'p listener" where
  "returning n = \<lparr>lid = n, throws = (\<lambda>_. None)\<rparr>"

definition throwing :: "nat \<Rightarrow> error \<Rightarrow> 'p listener" where
  "throwing n e = \<lparr>lid = n, throws = (\<lambda>_. Some e)\<rparr>"

definition example_event :: DataChangeEvent where
  "example_event =
     \<lparr>deviceId = ''d1'', address = ''a1'', dvalue = VNum 7, timestamp = 0, quality = Some Good\<rparr>"

text \<open>The listeners of the first of the three scopes of an event (exact address,
  device, global) that has any; those of the global scope, none, when no scope has.\<close>

definition first_scope :: "EventBus \<Rightarrow> DataChangeEvent \<Rightarrow> payload listener list" where
  "first_scope bus event =
     (if listeners bus (''data:'' @ deviceId event @ '':'' @ address event) \<noteq> []
      then listeners bus (''data:'' @ deviceId event @ '':'' @ address event)
      else if listeners bus (''data:'' @ deviceId event) \<noteq> []
      then listeners bus (''data:'' @ deviceId event)
      else listeners bus ''data'')"

text \<open>A manager with the configuration of one Modbus device \<open>d1\<close>, the Modbus factory,
  and a subscriber to the error events of the bus.\<close>

definition example_config :: DeviceConfig where
  "example_config = \<lparr>cfg_deviceId = ''d1'', cfg_protocol = Modbus, cfg_timeout = None\<rparr>"

definition example_manager :: DeviceManager where
  "example_manager =
     fst (addDeviceConfig
            (registerProtocol (newDeviceManager (onError (newEventBus 0) (returning 9)))
               Modbus createModbusAdapter)
            example_config)"

text \<open>The same manager with a subscriber to the status events of the bus instead.\<close>

definition watched_manager :: "payload listener \<Rightarrow> DeviceManager" where
  "watched_manager l =
     fst (addDeviceConfig
            (registerProtocol (newDeviceManager (onStatus (newEventBus 0) l))
               Modbus createModbusAdapter)
            example_config)"

text \<open>The test at the head of \<^verbatim>\<open>connectDevice\<close>: an adapter is stored for the device
  and reports connected.\<close>

definition connected_to :: "DeviceManager \<Rightarrow> string \<Rightarrow> bool" where
  "connected_to w dev = (case adapters w dev of None \<Rightarrow> False | Some r \<Rightarrow> isConnected (objects w r))"

text \<open>An adapter connected to the example device; the same with a poll subscription
  on the holding register \<open>HR:1\<close> at the default interval; and that adapter under its
  timer, with no tick pending.\<close>

definition connected_adapter :: ModbusAdapter where
  "connected_adapter = fst (connect newModbusAdapter example_config None)"

definition polling_adapter :: ModbusAdapter where
  "polling_adapter = fst (subscribe connected_adapter ''HR:1'' (returning 1) None)"

definition example_poll :: PollState where
  "example_poll = \<lparr>ps_adapter = polling_adapter, ps_pending = [], ps_delivered = []\<rparr>"






text \<open>
  A pool of natural numbers with \<open>maxConnections = 1\<close>, and the states it goes through
  when \<^verbatim>\<open>acquire()\<close> is called twice before anything is awaited (as in
  \<^verbatim>\<open>Promise.all([pool.acquire(), pool.acquire()])\<close>): both calls made; the first
  call's factory settled with 100; the first call resumed; the same for the second
  call, with 200.
\<close>

definition small_pool :: "nat ConnectionPool" where
  "small_pool = newConnectionPool (DEFAULT_POOL_OPTIONS\<lparr>maxConnections := 1\<rparr>) 0"

definition two_calls :: "nat ConnectionPool" where
  "two_calls = fst (acquire (fst (acquire small_pool ''id1'')) ''id2'')"

definition first_created :: "nat ConnectionPool" where
  "first_created = fst (createConnection_resume two_calls ''id1'' (Inr 100) 5)"

definition first_acquired :: "nat ConnectionPool" where
  "first_acquired = fst (acquire_created first_created 0)"

definition second_created :: "nat ConnectionPool" where
  "second_created = fst (createConnection_resume first_acquired ''id2'' (Inr 200) 6)"

definition second_acquired :: "nat ConnectionPool" where
  "second_acquired = fst (acquire_created second_created 1)"

text \<open>The same pool after one \<^verbatim>\<open>acquire()\<close> alone has created connection 0 and the
  caller has released it: one entry, idle.\<close>

definition idle_pool :: "nat ConnectionPool" where
  "idle_pool =
     fst (release
            (fst (acquire_created
                    (fst (createConnection_resume (fst (acquire small_pool ''id1'')) ''id1'' (Inr 100) 5))
                    0))
            0 7)"

text \<open>
  Calls of the pool's methods made in turn: an \<^verbatim>\<open>acquire()\<close> that is run to its end
  before the next call is made (with the validator, the factory's answer, the clock
  and the id it meets), a \<^verbatim>\<open>release\<close>, the timeout of a waiter. A task is settled
  when it awaits nothing; the map is bounded when its size is at most
  \<open>maxConnections\<close>; a pending task is sound when, moreover, a call that is about to
  create a connection found the size below the maximum.
\<close>

datatype 'c PoolCall =
    CallAcquire "'c \<Rightarrow> error + bool" "error + 'c" int string
  | CallRelease nat int
  | AcquireTimeout nat

fun pool_call :: "'c ConnectionPool \<Rightarrow> 'c PoolCall \<Rightarrow> 'c ConnectionPool" where
  "pool_call p (CallAcquire validator made now newId) =
     fst (acquire_complete validator made now newId (acquire p newId))"
| "pool_call p (CallRelease r now) = fst (release p r now)"
| "pool_call p (AcquireTimeout k) = fst (acquire_timeout p k)"

fun pool_calls :: "'c ConnectionPool \<Rightarrow> 'c PoolCall list \<Rightarrow> 'c ConnectionPool" where
  "pool_calls p [] = p"
| "pool_calls p (c # cs) = pool_calls (pool_call p c) cs"

definition settled :: "AcquireTask \<Rightarrow> bool" where
  "settled t = (case t of Queued k \<Rightarrow> True | Acquired r \<Rightarrow> True | Failed e \<Rightarrow> True | _ \<Rightarrow> False)"

definition pool_bounded :: "'c ConnectionPool \<Rightarrow> bool" where
  "pool_bounded p \<longleftrightarrow> int (map_size (pool p)) \<le> maxConnections (options p)"

definition task_ok :: "'c ConnectionPool \<Rightarrow> AcquireTask \<Rightarrow> bool" where
  "task_ok p t \<longleftrightarrow>
     pool_bounded p
     \<and> (case t of AwaitFactory k \<Rightarrow> int (map_size (pool p)) < maxConnections (options p) | _ \<Rightarrow> True)"

section \<open>Event bus: delivery\<close>

lemma call_listeners_all_return:
  "list_all (\<lambda>l. throws l p = None) ls \<Longrightarrow> call_listeners ls p = (map lid ls, None)"
  by (induction ls) auto

lemma call_listeners_throws:
  "list_all (\<lambda>l. throws l p = None) pre \<Longrightarrow> throws c p = Some e \<Longrightarrow>
   call_listeners (pre @ c # post) p = (map lid pre @ [lid c], Some e)"
  by (induction pre) auto

lemma emit_data_name:
  "name \<noteq> ''error'' \<Longrightarrow>
   emit L name p =
     (case call_listeners (L name) p of
        (d, Some e) \<Rightarrow> (d, Inl e)
      | (d, None) \<Rightarrow> (d, Inr (L name \<noteq> [])))"
  by (cases "L name") (auto simp: emit_def split: option.splits prod.splits)

lemma emitData_first_scope:
  "snd (emitData bus event) =
     (case call_listeners (first_scope bus event) (Data event) of
        (d, Some e) \<Rightarrow> (d, Inl e)
      | (d, None) \<Rightarrow> (d, Inr (first_scope bus event \<noteq> [])))"
  by (auto simp: emitData_def first_scope_def emit_data_name Let_def
           split: option.splits prod.splits sum.splits bool.splits)

text \<open>
  Claim C1 (every data event is delivered at all three scopes, whatever the other
  scopes hold). On the code the claim fails: with one subscriber at each scope of
  \<open>(d1, a1)\<close>, registered through \<open>onDataAddress\<close>, \<open>onData\<close> and \<open>onAllData\<close>,
  \<open>emitData\<close> invokes the exact-address subscriber only and returns \<open>true\<close>: the
  \<^verbatim>\<open>||\<close> chain stops at the first scope that has a listener.
\<close>

theorem emitData_stops_at_first_scope:
  "snd (emitData
          (onAllData
             (onData (onDataAddress (newEventBus 0) ''d1'' ''a1'' (returning 1)) ''d1'' (returning 2))
             (returning 3))
          example_event) = ([1], Inr True)"
  by (simp add: emitData_def onAllData_def onData_def onDataAddress_def newEventBus_def on_def
        emit_def returning_def example_event_def)

text \<open>
  Claim C7 (a throwing subscriber neither keeps the event from the other subscribers
  nor reaches the publisher). As stated it fails: of two global subscribers the first
  throws, the second is never invoked, and \<open>emitData\<close> ends with that exception.
\<close>

theorem emitData_throwing_listener_counterexample:
  "snd (emitData (onAllData (onAllData (newEventBus 0) (throwing 1 (Error ''boom''))) (returning 2))
          example_event) = ([1], Inl (Error ''boom''))"
  by (simp add: emitData_def onAllData_def newEventBus_def on_def emit_def returning_def
        throwing_def example_event_def)

text \<open>
  Claim C7, amended: delivery is synchronous and unguarded, so a subscriber that
  throws ends it. Take the listeners of the first of the three scopes of the event
  (exact address, device, global) that has any, in registration order: if one of
  them throws and those registered before it return, then \<open>emitData\<close> has called
  those before it and the one that throws, and nothing else, and ends with that
  exception. No other subscriber receives the event, and the exception reaches the
  publisher.
\<close>

theorem emitData_listener_throws:
  assumes "first_scope bus event = pre @ c # post"
    and "list_all (\<lambda>l. throws l (Data event) = None) pre"
    and "throws c (Data event) = Some e"
  shows "snd (emitData bus event) = (map lid pre @ [lid c], Inl e)"
  using assms by (simp add: emitData_first_scope call_listeners_throws)

theorem emitData_listener_throws_witness:
  "first_scope (onAllData (onAllData (newEventBus 0) (returning 1)) (throwing 2 (Error ''boom'')))
      example_event
      = [returning 1] @ throwing 2 (Error ''boom'') # []
   \<and> list_all (\<lambda>l. throws l (Data example_event) = None) [returning 1 :: payload listener]
   \<and> throws (throwing 2 (Error ''boom'') :: payload listener) (Data example_event)
      = Some (Error ''boom'')
   \<and> snd (emitData (onAllData (onAllData (newEventBus 0) (returning 1)) (throwing 2 (Error ''boom'')))
            example_event)
      = (map lid [returning 1 :: payload listener]
           @ [lid (throwing 2 (Error ''boom'') :: payload listener)], Inl (Error ''boom''))"
proof -
  let ?bus = "onAllData (onAllData (newEventBus 0) (returning 1)) (throwing 2 (Error ''boom''))"
  have h1: "first_scope ?bus example_event = [returning 1] @ throwing 2 (Error ''boom'') # []"
    by (simp add: first_scope_def onAllData_def newEventBus_def on_def example_event_def)
  have h2: "list_all (\<lambda>l. throws l (Data example_event) = None) [returning 1 :: payload listener]"
    by (simp add: returning_def)
  have h3: "throws (throwing 2 (Error ''boom'') :: payload listener) (Data example_event)
              = Some (Error ''boom'')"
    by (simp add: throwing_def)
  from emitData_listener_throws [OF h1 h2 h3] h1 h2 h3 show ?thesis by simp
qed

section \<open>Device manager: connecting\<close>

lemma connectDevice_begin_fresh:
  assumes "configs w dev = Some cfg" and "factories w (cfg_protocol cfg) = Some f"
    and "\<not> connected_to w dev"
  shows "connectDevice_begin w dev =
           (w\<lparr>objects := (objects w)(allocated w := connect_begin (f ()) cfg),
              allocated := allocated w + 1,
              connectCalls := connectCalls w @ [allocated w]\<rparr>, AwaitConnect (allocated w))"
  using assms by (auto simp: connectDevice_begin_def connected_to_def Let_def split: option.splits)

lemma connect_begin_not_connected: "\<not> isConnected (connect_begin a cfg)"
  by (simp add: connect_begin_def isConnected_def)

lemma connectDevice_calls_replicate:
  assumes "configs w dev = Some cfg" and "factories w (cfg_protocol cfg) = Some f"
    and "\<not> connected_to w dev"
  shows "connectCalls (fst (connectDevice_calls w (replicate n dev)))
           = connectCalls w @ [allocated w ..< allocated w + n]
       \<and> snd (connectDevice_calls w (replicate n dev))
           = map AwaitConnect [allocated w ..< allocated w + n]
       \<and> adapters (fst (connectDevice_calls w (replicate n dev))) = adapters w"
  using assms
proof (induction n arbitrary: w)
  case 0
  then show ?case by simp
next
  case (Suc n)
  let ?w1 = "w\<lparr>objects := (objects w)(allocated w := connect_begin (f ()) cfg),
                allocated := allocated w + 1,
                connectCalls := connectCalls w @ [allocated w]\<rparr>"
  have b: "connectDevice_begin w dev = (?w1, AwaitConnect (allocated w))"
    using Suc.prems by (rule connectDevice_begin_fresh)
  have c: "\<not> connected_to ?w1 dev"
    using Suc.prems(3) by (auto simp: connected_to_def connect_begin_not_connected split: option.splits)
  have ih: "connectCalls (fst (connectDevice_calls ?w1 (replicate n dev)))
              = connectCalls ?w1 @ [allocated ?w1 ..< allocated ?w1 + n]
          \<and> snd (connectDevice_calls ?w1 (replicate n dev))
              = map AwaitConnect [allocated ?w1 ..< allocated ?w1 + n]
          \<and> adapters (fst (connectDevice_calls ?w1 (replicate n dev))) = adapters ?w1"
    using Suc.prems(1,2) c by (intro Suc.IH) simp_all
  obtain w2 ts where r: "connectDevice_calls ?w1 (replicate n dev) = (w2, ts)"
    by (cases "connectDevice_calls ?w1 (replicate n dev)")
  have s: "connectDevice_calls w (replicate (Suc n) dev) = (w2, AwaitConnect (allocated w) # ts)"
    using r by (simp add: b)
  have u: "[allocated w ..< allocated w + Suc n] = allocated w # [allocated w + 1 ..< allocated w + 1 + n]"
    by (simp add: upt_conv_Cons del: upt_Suc)
  from ih r have "connectCalls w2 = connectCalls w @ allocated w # [allocated w + 1 ..< allocated w + 1 + n]"
    and "ts = map AwaitConnect [allocated w + 1 ..< allocated w + 1 + n]"
    and "adapters w2 = adapters w"
    by (simp_all del: upt_Suc)
  then show ?case unfolding s u by simp
qed

lemma emitStatus_all_return:
  assumes "list_all (\<lambda>l. throws l (StatusEvent dev status now) = None) (listeners bus ''status'')"
  shows "emitStatus bus dev status now
           = (map lid (listeners bus ''status''), Inr (listeners bus ''status'' \<noteq> []))"
  using assms
  by (cases "listeners bus ''status''")
     (simp_all add: emitStatus_def emit_def call_listeners_all_return del: call_listeners.simps)

lemma connectDevice_resume_failed:
  "snd (connectDevice_resume w dev r (Some e) now) = Rejected e
   \<and> adapters (fst (connectDevice_resume w dev r (Some e) now)) = adapters w
   \<and> connectCalls (fst (connectDevice_resume w dev r (Some e) now)) = connectCalls w"
  by (cases e) (simp add: connectDevice_resume_def connect_resume_def)

lemma connectDevice_resume_connected:
  assumes "list_all (\<lambda>l. throws l (StatusEvent dev ''connected'' now) = None)
             (listeners (eventBus w) ''status'')"
  shows "snd (connectDevice_resume w dev r None now) = Resolved r
   \<and> adapters (fst (connectDevice_resume w dev r None now)) = (adapters w)(dev \<mapsto> r)
   \<and> isConnected (objects (fst (connectDevice_resume w dev r None now)) r) = socket (objects w r)
   \<and> connectCalls (fst (connectDevice_resume w dev r None now)) = connectCalls w"
  using emitStatus_all_return [OF assms]
  by (simp add: connectDevice_resume_def connect_resume_def Let_def isConnected_def)

lemma connectDevice_resume_stores:
  "adapters (fst (connectDevice_resume w dev r None now)) = (adapters w)(dev \<mapsto> r)"
  by (simp add: connectDevice_resume_def connect_resume_def Let_def split: prod.splits sum.splits)

lemma connectDevice_resume_listener_throws:
  "snd (emitStatus (eventBus w) dev ''connected'' now) = Inl e \<Longrightarrow>
   snd (connectDevice_resume w dev r None now) = Rejected e"
  by (cases "emitStatus (eventBus w) dev ''connected'' now")
     (simp add: connectDevice_resume_def connect_resume_def Let_def)

lemma connectDevice_resume_connectCalls:
  "connectCalls (fst (connectDevice_resume w dev r outcome now)) = connectCalls w"
  by (simp add: connectDevice_resume_def connect_resume_def Let_def
           split: option.splits error.splits prod.splits sum.splits)

text \<open>
  Claim C2 (at most one connect in flight per device: concurrent calls make one
  \<^verbatim>\<open>connect\<close> call and share its result). As stated it fails: two calls of
  \<open>connectDevice\<close> for \<open>d1\<close> made before the first one's connect has completed both
  find no connected adapter stored, each creates an adapter and calls its
  \<^verbatim>\<open>connect\<close> (two calls, on adapters 0 and 1); when both connects succeed the first
  caller gets adapter 0 and the second adapter 1.
\<close>

theorem connectDevice_twice_counterexample:
  "connectCalls (fst (connectDevice_calls example_manager [''d1'', ''d1''])) = [0, 1]
   \<and> snd (connectDevice_calls example_manager [''d1'', ''d1'']) = [AwaitConnect 0, AwaitConnect 1]
   \<and> snd (connectDevice_resume (fst (connectDevice_calls example_manager [''d1'', ''d1'']))
             ''d1'' 0 None 5) = Resolved 0
   \<and> snd (connectDevice_resume
             (fst (connectDevice_resume (fst (connectDevice_calls example_manager [''d1'', ''d1'']))
                     ''d1'' 0 None 5))
             ''d1'' 1 None 6) = Resolved 1"
  by (simp add: example_manager_def example_config_def addDeviceConfig_def
        registerProtocol_def newDeviceManager_def onError_def newEventBus_def on_def
        createModbusAdapter_def newModbusAdapter_def returning_def connectDevice_def
        connectDevice_begin_def connectDevice_resume_def connect_begin_def connect_resume_def
        isConnected_def emitStatus_def emit_def)

text \<open>
  Claim C2, amended: \<^verbatim>\<open>connectDevice\<close> does not serialize the calls for a device.
  \<^item> A call for a device that has a configuration and a stored adapter that reports
    connected returns that adapter and changes nothing: it makes no connect call.
  \<^item> When the device has a configuration, a factory is registered for its protocol
    and no connected adapter is stored for it, \<open>n\<close> calls made in one turn of the
    event loop (none has completed when the next is made) create \<open>n\<close> adapters and
    call \<^verbatim>\<open>connect\<close> on each: \<open>n\<close> connect calls are made, \<open>n\<close> connects are in
    flight, and the registry is as before.
  \<^item> Each call is completed by its own connect, and completing it makes no connect
    call. If its connect fails, the call is rejected with the connect's error and
    the registry is unchanged. If its connect succeeds, its adapter is stored for the
    device, replacing any entry; the call then resolves with the adapter it created
    when no \<open>status\<close> listener throws on the \<open>connected\<close> event, and is rejected with
    the listener's exception when the delivery of that event ends with one.
\<close>

theorem connectDevice_calls_connect_each:
  "(configs w dev = Some cfg \<and> adapters w dev = Some r \<and> isConnected (objects w r)
      \<longrightarrow> connectDevice_begin w dev = (w, Resolved r))
   \<and> (configs w dev = Some cfg \<and> factories w (cfg_protocol cfg) = Some f \<and> \<not> connected_to w dev
      \<longrightarrow> connectCalls (fst (connectDevice_calls w (replicate n dev)))
             = connectCalls w @ [allocated w ..< allocated w + n]
          \<and> snd (connectDevice_calls w (replicate n dev))
             = map AwaitConnect [allocated w ..< allocated w + n]
          \<and> adapters (fst (connectDevice_calls w (replicate n dev))) = adapters w)
   \<and> snd (connectDevice_resume w dev r (Some e) now) = Rejected e
   \<and> adapters (fst (connectDevice_resume w dev r (Some e) now)) = adapters w
   \<and> adapters (fst (connectDevice_resume w dev r None now)) = (adapters w)(dev \<mapsto> r)
   \<and> (list_all (\<lambda>l. throws l (StatusEvent dev ''connected'' now) = None)
         (listeners (eventBus w) ''status'')
      \<longrightarrow> snd (connectDevice_resume w dev r None now) = Resolved r)
   \<and> (snd (emitStatus (eventBus w) dev ''connected'' now) = Inl e'
      \<longrightarrow> snd (connectDevice_resume w dev r None now) = Rejected e')
   \<and> connectCalls (fst (connectDevice_resume w dev r outcome now)) = connectCalls w"
proof (intro conjI impI)
  assume "configs w dev = Some cfg \<and> adapters w dev = Some r \<and> isConnected (objects w r)"
  then show "connectDevice_begin w dev = (w, Resolved r)"
    by (simp add: connectDevice_begin_def)
next
  assume a: "configs w dev = Some cfg \<and> factories w (cfg_protocol cfg) = Some f \<and> \<not> connected_to w dev"
  then show "connectCalls (fst (connectDevice_calls w (replicate n dev)))
             = connectCalls w @ [allocated w ..< allocated w + n]"
    using connectDevice_calls_replicate [of w dev cfg f n] by blast
  from a show "snd (connectDevice_calls w (replicate n dev))
             = map AwaitConnect [allocated w ..< allocated w + n]"
    using connectDevice_calls_replicate [of w dev cfg f n] by blast
  from a show "adapters (fst (connectDevice_calls w (replicate n dev))) = adapters w"
    using connectDevice_calls_replicate [of w dev cfg f n] by blast
next
  show "snd (connectDevice_resume w dev r (Some e) now) = Rejected e"
    using connectDevice_resume_failed [of w dev r e now] by blast
  show "adapters (fst (connectDevice_resume w dev r (Some e) now)) = adapters w"
    using connectDevice_resume_failed [of w dev r e now] by blast
  show "adapters (fst (connectDevice_resume w dev r None now)) = (adapters w)(dev \<mapsto> r)"
    by (rule connectDevice_resume_stores)
next
  assume "list_all (\<lambda>l. throws l (StatusEvent dev ''connected'' now) = None)
            (listeners (eventBus w) ''status'')"
  then show "snd (connectDevice_resume w dev r None now) = Resolved r"
    using connectDevice_resume_connected [of dev now w r] by blast
next
  assume "snd (emitStatus (eventBus w) dev ''connected'' now) = Inl e'"
  then show "snd (connectDevice_resume w dev r None now) = Rejected e'"
    by (rule connectDevice_resume_listener_throws)
next
  show "connectCalls (fst (connectDevice_resume w dev r outcome now)) = connectCalls w"
    by (rule connectDevice_resume_connectCalls)
qed

theorem connectDevice_calls_connect_each_witness:
  "configs (fst (connectDevice example_manager ''d1'' None 1)) ''d1'' = Some example_config
   \<and> adapters (fst (connectDevice example_manager ''d1'' None 1)) ''d1'' = Some 0
   \<and> isConnected (objects (fst (connectDevice example_manager ''d1'' None 1)) 0)
   \<and> connectDevice_begin (fst (connectDevice example_manager ''d1'' None 1)) ''d1''
        = (fst (connectDevice example_manager ''d1'' None 1), Resolved 0)
   \<and> configs example_manager ''d1'' = Some example_config
   \<and> factories example_manager (cfg_protocol example_config) = Some createModbusAdapter
   \<and> \<not> connected_to example_manager ''d1''
   \<and> connectCalls (fst (connectDevice_calls example_manager (replicate 3 ''d1''))) = [0, 1, 2]
   \<and> snd (connectDevice_calls example_manager (replicate 3 ''d1''))
       = [AwaitConnect 0, AwaitConnect 1, AwaitConnect 2]
   \<and> list_all (\<lambda>l. throws l (StatusEvent ''d1'' ''connected'' 6) = None)
         (listeners (eventBus (fst (connectDevice_calls (watched_manager (returning 8))
                                      [''d1'', ''d1'']))) ''status'')
   \<and> snd (connectDevice_resume (fst (connectDevice_calls (watched_manager (returning 8)) [''d1'', ''d1'']))
             ''d1'' 1 None 6) = Resolved 1
   \<and> adapters (fst (connectDevice_resume
                       (fst (connectDevice_calls (watched_manager (returning 8)) [''d1'', ''d1'']))
                       ''d1'' 1 None 6)) ''d1'' = Some 1
   \<and> snd (connectDevice_resume (fst (connectDevice_calls (watched_manager (returning 8)) [''d1'', ''d1'']))
             ''d1'' 0 (Some (Error ''refused'')) 6) = Rejected (Error ''refused'')
   \<and> snd (emitStatus
             (eventBus (fst (connectDevice_calls (watched_manager (throwing 8 (Error ''boom'')))
                               [''d1''])))
             ''d1'' ''connected'' 6) = Inl (Error ''boom'')
   \<and> snd (connectDevice_resume
             (fst (connectDevice_calls (watched_manager (throwing 8 (Error ''boom''))) [''d1'']))
             ''d1'' 0 None 6) = Rejected (Error ''boom'')"
proof -
  let ?w = "fst (connectDevice example_manager ''d1'' None 1)"
  let ?v = "fst (connectDevice_calls (watched_manager (returning 8)) [''d1'', ''d1''])"
  let ?u = "fst (connectDevice_calls (watched_manager (throwing 8 (Error ''boom''))) [''d1''])"
  have h1: "configs ?w ''d1'' = Some example_config \<and> adapters ?w ''d1'' = Some 0
            \<and> isConnected (objects ?w 0)"
    by (simp add: example_manager_def example_config_def addDeviceConfig_def
          registerProtocol_def newDeviceManager_def onError_def newEventBus_def on_def
          createModbusAdapter_def newModbusAdapter_def returning_def connectDevice_def
          connectDevice_begin_def connectDevice_resume_def connect_begin_def connect_resume_def
          isConnected_def emitStatus_def emit_def)
  have h2: "configs example_manager ''d1'' = Some example_config
            \<and> factories example_manager (cfg_protocol example_config) = Some createModbusAdapter
            \<and> \<not> connected_to example_manager ''d1''"
    by (simp add: example_manager_def example_config_def addDeviceConfig_def registerProtocol_def
          newDeviceManager_def connected_to_def)
  have z: "connectCalls example_manager = [] \<and> allocated example_manager = 0"
    by (simp add: example_manager_def example_config_def addDeviceConfig_def registerProtocol_def
          newDeviceManager_def)
  have h3: "listeners (eventBus ?v) ''status'' = [returning 8]"
    by (simp add: watched_manager_def example_config_def addDeviceConfig_def
          registerProtocol_def newDeviceManager_def onStatus_def newEventBus_def on_def
          connectDevice_begin_def Let_def)
  have h4: "list_all (\<lambda>l. throws l (StatusEvent ''d1'' ''connected'' 6) = None)
              (listeners (eventBus ?v) ''status'')"
    unfolding h3 by (simp add: returning_def)
  have h5: "snd (emitStatus (eventBus ?u) ''d1'' ''connected'' 6) = Inl (Error ''boom'')"
    by (simp add: watched_manager_def example_config_def addDeviceConfig_def
          registerProtocol_def newDeviceManager_def onStatus_def newEventBus_def on_def
          connectDevice_begin_def Let_def emitStatus_def emit_def throwing_def)
  note t1 = connectDevice_calls_connect_each
              [where w = ?w and dev = "''d1''" and cfg = example_config and r = 0]
  note t2 = connectDevice_calls_connect_each
              [where w = example_manager and dev = "''d1''" and cfg = example_config
                 and f = createModbusAdapter and n = 3]
  note t3 = connectDevice_calls_connect_each
              [where w = ?v and dev = "''d1''" and r = 1 and now = 6]
  note t4 = connectDevice_calls_connect_each
              [where w = ?v and dev = "''d1''" and r = 0 and now = 6 and e = "Error ''refused''"]
  note t5 = connectDevice_calls_connect_each
              [where w = ?u and dev = "''d1''" and r = 0 and now = 6 and e' = "Error ''boom''"]
  from t1 h1 have c1: "connectDevice_begin ?w ''d1'' = (?w, Resolved 0)" by blast
  from t2 h2
  have c2: "connectCalls (fst (connectDevice_calls example_manager (replicate 3 ''d1'')))
              = connectCalls example_manager @ [allocated example_manager ..< allocated example_manager + 3]
          \<and> snd (connectDevice_calls example_manager (replicate 3 ''d1''))
              = map AwaitConnect [allocated example_manager ..< allocated example_manager + 3]"
    by blast
  have u: "[] @ [0 ..< 0 + 3] = [0, 1, 2::nat]"
    and v: "map AwaitConnect [0 ..< 0 + 3] = [AwaitConnect 0, AwaitConnect 1, AwaitConnect 2]"
    by (simp_all add: upt_rec)
  from c2 z have "connectCalls (fst (connectDevice_calls example_manager (replicate 3 ''d1'')))
                    = [] @ [0 ..< 0 + 3]
   \<and> snd (connectDevice_calls example_manager (replicate 3 ''d1'')) = map AwaitConnect [0 ..< 0 + 3]"
    by (simp del: upt_Suc replicate.simps)
  then have c3: "connectCalls (fst (connectDevice_calls example_manager (replicate 3 ''d1''))) = [0, 1, 2]
   \<and> snd (connectDevice_calls example_manager (replicate 3 ''d1''))
       = [AwaitConnect 0, AwaitConnect 1, AwaitConnect 2]"
    unfolding u v .
  from t3 h4 have c4: "snd (connectDevice_resume ?v ''d1'' 1 None 6) = Resolved 1"
    by blast
  from t3 have "adapters (fst (connectDevice_resume ?v ''d1'' 1 None 6)) = (adapters ?v)(''d1'' \<mapsto> 1)"
    by blast
  then have c5: "adapters (fst (connectDevice_resume ?v ''d1'' 1 None 6)) ''d1'' = Some 1"
    by simp
  from t4 have c6: "snd (connectDevice_resume ?v ''d1'' 0 (Some (Error ''refused'')) 6)
                      = Rejected (Error ''refused'')"
    by blast
  from t5 h5 have c7: "snd (connectDevice_resume ?u ''d1'' 0 None 6) = Rejected (Error ''boom'')"
    by blast
  from h1 h2 h4 h5 c1 c3 c4 c5 c6 c7 show ?thesis by blast
qed




section \<open>Device manager: read and write\<close>

lemma parse_HR_1:
  "parseModbusAddress ''HR:1'' = Inr \<lparr>ma_type = Holding, ma_address = 1, ma_quantity = Some 1\<rparr>"
  by code_simp

text \<open>
  Claim C4 (a failing read or write is forwarded as it is, and an error event is
  published on the bus). As stated it fails: on a connected device with a subscriber
  to the error events, a read that the client fails with \<open>timeout\<close> is rejected with
  that error, and no callback of the bus has been invoked.
\<close>

theorem dm_read_failure_no_error_event_counterexample:
  "snd (dm_read (fst (connectDevice example_manager ''d1'' None 1)) ''d1'' ''HR:1'' 5
          (Inl (Error ''timeout'')) 9) = Inl (Error ''timeout'')
   \<and> listeners (eventBus (fst (connectDevice example_manager ''d1'' None 1))) ''error'' = [returning 9]
   \<and> delivered (fst (dm_read (fst (connectDevice example_manager ''d1'' None 1)) ''d1'' ''HR:1'' 5
          (Inl (Error ''timeout'')) 9)) = []"
  by (simp add: example_manager_def example_config_def addDeviceConfig_def
        registerProtocol_def newDeviceManager_def onError_def newEventBus_def on_def
        createModbusAdapter_def newModbusAdapter_def returning_def connectDevice_def
        connectDevice_begin_def connectDevice_resume_def connect_begin_def connect_resume_def
        isConnected_def emitStatus_def emit_def dm_read_def dm_write_def adapter_read_def
        adapter_write_def read_begin_def read_resume_def write_begin_def write_resume_def
        parse_HR_1)

text \<open>
  Claim C4, amended: \<^verbatim>\<open>DeviceManager.read\<close> and \<^verbatim>\<open>write\<close> return what the stored
  adapter's \<^verbatim>\<open>read\<close> and \<^verbatim>\<open>write\<close> return, so the error of a failing client call
  reaches the caller as it is; they publish nothing: the bus and the callbacks it has
  invoked are as before.
\<close>

theorem dm_read_write_forward:
  assumes "adapters w dev = Some r"
  shows "snd (dm_read w dev addr start response finish)
           = snd (adapter_read (objects w r) addr start response finish)
       \<and> delivered (fst (dm_read w dev addr start response finish)) = delivered w
       \<and> eventBus (fst (dm_read w dev addr start response finish)) = eventBus w
       \<and> snd (dm_write w dev addr v start wresponse finish)
           = snd (adapter_write (objects w r) addr v start wresponse finish)
       \<and> delivered (fst (dm_write w dev addr v start wresponse finish)) = delivered w
       \<and> eventBus (fst (dm_write w dev addr v start wresponse finish)) = eventBus w
       \<and> (isConnected (objects w r) \<and> client (objects w r) \<and> parseModbusAddress addr = Inr m
            \<longrightarrow> snd (dm_read w dev addr start (Inl e) finish) = Inl e)
       \<and> (isConnected (objects w r) \<and> client (objects w r) \<and> parseModbusAddress addr = Inr m
            \<and> (ma_type m = Coil \<or> ma_type m = Holding)
            \<longrightarrow> snd (dm_write w dev addr v start (Some e) finish) = Inl e)"
  using assms
  by (auto simp: dm_read_def dm_write_def adapter_read_def adapter_write_def read_begin_def
        read_resume_def write_begin_def write_resume_def split: prod.splits sum.splits)

theorem dm_read_write_forward_witness:
  "adapters (fst (connectDevice example_manager ''d1'' None 1)) ''d1'' = Some 0
   \<and> snd (dm_read (fst (connectDevice example_manager ''d1'' None 1)) ''d1'' ''HR:1'' 5 (Inl (Error ''timeout'')) 9)
       = Inl (Error ''timeout'')
   \<and> snd (dm_write (fst (connectDevice example_manager ''d1'' None 1)) ''d1'' ''HR:1'' (VNum 3) 5
            (Some (Error ''timeout'')) 9)
       = Inl (Error ''timeout'')
   \<and> delivered (fst (dm_read (fst (connectDevice example_manager ''d1'' None 1)) ''d1'' ''HR:1'' 5
            (Inl (Error ''timeout'')) 9)) = []"
proof -
  let ?w = "fst (connectDevice example_manager ''d1'' None 1)"
  let ?m = "\<lparr>ma_type = Holding, ma_address = 1, ma_quantity = Some 1\<rparr>"
  have h: "adapters ?w ''d1'' = Some 0"
    by (simp add: example_manager_def example_config_def addDeviceConfig_def
          registerProtocol_def newDeviceManager_def onError_def newEventBus_def on_def
          createModbusAdapter_def newModbusAdapter_def returning_def connectDevice_def
          connectDevice_begin_def connectDevice_resume_def connect_begin_def connect_resume_def
          isConnected_def emitStatus_def emit_def)
  have k: "isConnected (objects ?w 0) \<and> client (objects ?w 0)"
    by (simp add: example_manager_def example_config_def addDeviceConfig_def
          registerProtocol_def newDeviceManager_def onError_def newEventBus_def on_def
          createModbusAdapter_def newModbusAdapter_def returning_def connectDevice_def
          connectDevice_begin_def connectDevice_resume_def connect_begin_def connect_resume_def
          isConnected_def emitStatus_def emit_def)
  have d: "delivered ?w = []"
    by (simp add: example_manager_def example_config_def addDeviceConfig_def
          registerProtocol_def newDeviceManager_def onError_def newEventBus_def on_def
          createModbusAdapter_def newModbusAdapter_def returning_def connectDevice_def
          connectDevice_begin_def connectDevice_resume_def connect_begin_def connect_resume_def
          isConnected_def emitStatus_def emit_def)
  have t: "ma_type ?m = Coil \<or> ma_type ?m = Holding" by simp
  note f = dm_read_write_forward [OF h, of "''HR:1''" 5 "Inl (Error ''timeout'')" 9 "VNum 3"
         "Some (Error ''timeout'')" ?m "Error ''timeout''"]
  from f k parse_HR_1
  have c1: "snd (dm_read ?w ''d1'' ''HR:1'' 5 (Inl (Error ''timeout'')) 9) = Inl (Error ''timeout'')"
    by blast
  from f k parse_HR_1 t
  have c2: "snd (dm_write ?w ''d1'' ''HR:1'' (VNum 3) 5 (Some (Error ''timeout'')) 9)
              = Inl (Error ''timeout'')"
    by blast
  from f have "delivered (fst (dm_read ?w ''d1'' ''HR:1'' 5 (Inl (Error ''timeout'')) 9)) = delivered ?w"
    by blast
  with d have c3: "delivered (fst (dm_read ?w ''d1'' ''HR:1'' 5 (Inl (Error ''timeout'')) 9)) = []"
    by simp
  from h c1 c2 c3 show ?thesis by blast
qed

section \<open>Modbus adapter: subscriptions\<close>


























section \<open>Modbus adapter: metrics of read\<close>

text \<open>
  Claim C9 (\<^verbatim>\<open>read\<close> updates \<open>readCount\<close> and the latency on every attempt, failed
  or not). As stated it fails: on a connected adapter a read that the client fails
  leaves \<open>readCount\<close> and \<open>lastLatency\<close> at 0.
\<close>

theorem read_failure_keeps_readCount_counterexample:
  "isConnected connected_adapter
   \<and> readCount (metrics connected_adapter) = 0
   \<and> snd (adapter_read connected_adapter ''HR:1'' 5 (Inl (Error ''timeout'')) 9) = Inl (Error ''timeout'')
   \<and> readCount (metrics (fst (adapter_read connected_adapter ''HR:1'' 5 (Inl (Error ''timeout'')) 9))) = 0
   \<and> lastLatency (metrics (fst (adapter_read connected_adapter ''HR:1'' 5 (Inl (Error ''timeout'')) 9))) = 0"
  by (simp add: connected_adapter_def polling_adapter_def example_poll_def example_config_def
        connect_def connect_begin_def connect_resume_def newModbusAdapter_def returning_def
        isConnected_def adapter_read_def read_begin_def read_resume_def
        parse_HR_1)

text \<open>
  Claim C9, amended, for \<^verbatim>\<open>ModbusAdapter.read\<close> (nothing is said of the adapters of
  the other protocols): of a read that reaches the device, that is, on an adapter
  that is connected and has its client, with a well-formed Modbus address, a success
  adds one to \<open>readCount\<close>, sets \<open>lastLatency\<close> to the duration of the read and adds
  that duration to \<open>totalLatency\<close>, and changes nothing else of the metrics; a
  failure adds one to \<open>errorCount\<close> and leaves \<open>readCount\<close> and both latencies as
  they were.
\<close>

theorem adapter_read_metrics:
  assumes "isConnected a" and "client a" and "parseModbusAddress addr = Inr m"
  shows "metrics (fst (adapter_read a addr start (Inr values) finish))
           = (metrics a)\<lparr>readCount := readCount (metrics a) + 1,
                         lastLatency := finish - start,
                         totalLatency := totalLatency (metrics a) + (finish - start)\<rparr>
       \<and> metrics (fst (adapter_read a addr start (Inl e) finish))
           = (metrics a)\<lparr>errorCount := errorCount (metrics a) + 1\<rparr>"
  using assms by (simp add: adapter_read_def read_begin_def read_resume_def)

theorem adapter_read_metrics_witness:
  "isConnected connected_adapter \<and> client connected_adapter
   \<and> parseModbusAddress ''HR:1'' = Inr \<lparr>ma_type = Holding, ma_address = 1, ma_quantity = Some 1\<rparr>
   \<and> metrics (fst (adapter_read connected_adapter ''HR:1'' 5 (Inr [VNum 3]) 9))
       = \<lparr>readCount = 1, writeCount = 0, errorCount = 0, totalLatency = 4, lastLatency = 4\<rparr>
   \<and> metrics (fst (adapter_read connected_adapter ''HR:1'' 5 (Inl (Error ''timeout'')) 9))
       = \<lparr>readCount = 0, writeCount = 0, errorCount = 1, totalLatency = 0, lastLatency = 0\<rparr>"
proof -
  have h1: "isConnected connected_adapter" and h2: "client connected_adapter"
    by (simp_all add: connected_adapter_def polling_adapter_def example_poll_def
          example_config_def connect_def connect_begin_def connect_resume_def newModbusAdapter_def
          returning_def isConnected_def)
  have m: "metrics connected_adapter
             = \<lparr>readCount = 0, writeCount = 0, errorCount = 0, totalLatency = 0, lastLatency = 0\<rparr>"
    by (simp add: connected_adapter_def polling_adapter_def example_poll_def example_config_def
          connect_def connect_begin_def connect_resume_def newModbusAdapter_def returning_def)
  from adapter_read_metrics [OF h1 h2 parse_HR_1, of 5 "[VNum 3]" 9 "Error ''timeout''"] h1 h2 parse_HR_1
  show ?thesis by (simp add: m)
qed

section \<open>Modbus adapter: ticks of a poll subscription\<close>

text \<open>
  Claim C10 (a tick's read completes before the next tick's read is issued). As
  stated it fails: with the interval of 1000 ms, the timer fires at 1000 and, the
  first read not yet settled, at 2000: two reads of the same address are in flight.
\<close>

theorem ticks_overlap_counterexample:
  "map_option pt_interval (timers (ps_adapter example_poll) 0) = Some 1000
   \<and> reads_in_flight (poll_step example_poll (TimerFires 0 1000)) = 1
   \<and> reads_in_flight (poll_step (poll_step example_poll (TimerFires 0 1000)) (TimerFires 0 2000)) = 2"
  by (simp add: connected_adapter_def polling_adapter_def example_poll_def example_config_def
        connect_def connect_begin_def connect_resume_def newModbusAdapter_def returning_def
        subscribe_def Let_def poll_step_def tick_begin_def read_begin_def
        isConnected_def reads_in_flight_def parse_HR_1)

lemma tick_adds_read:
  assumes "timers (ps_adapter s) t = Some pt" and "isConnected (ps_adapter s)"
    and "client (ps_adapter s)" and "parseModbusAddress (pt_address pt) = Inr m"
  shows "reads_in_flight (poll_step s (TimerFires t now)) = reads_in_flight s + 1"
    and "ps_adapter (poll_step s (TimerFires t now)) = ps_adapter s"
  using assms
  by (simp_all add: poll_step_def tick_begin_def read_begin_def reads_in_flight_def)

text \<open>
  Claim C10, amended, for a poll subscription of a \<^verbatim>\<open>ModbusAdapter\<close> whose timer is
  running, on an adapter that is connected and has its client, the subscribed address
  being a well-formed Modbus address: the timer is a plain \<^verbatim>\<open>setInterval\<close>, and each
  of its ticks issues its read at once, whatever is still in flight, so that after
  \<open>n\<close> ticks with no read settled in between, \<open>n\<close> more reads are in flight.
\<close>

theorem ticks_accumulate:
  assumes "timers (ps_adapter s) t = Some pt" and "isConnected (ps_adapter s)"
    and "client (ps_adapter s)" and "parseModbusAddress (pt_address pt) = Inr m"
  shows "reads_in_flight (foldl poll_step s (map (TimerFires t) nows))
           = reads_in_flight s + length nows"
  using assms
proof (induction nows arbitrary: s)
  case Nil
  then show ?case by simp
next
  case (Cons now nows)
  let ?s1 = "poll_step s (TimerFires t now)"
  have a: "ps_adapter ?s1 = ps_adapter s" and r: "reads_in_flight ?s1 = reads_in_flight s + 1"
    using tick_adds_read [OF Cons.prems] by simp_all
  have "reads_in_flight (foldl poll_step ?s1 (map (TimerFires t) nows))
          = reads_in_flight ?s1 + length nows"
    using Cons.prems by (intro Cons.IH) (simp_all add: a)
  then show ?case by (simp add: r)
qed

theorem ticks_accumulate_witness:
  "timers (ps_adapter example_poll) 0
      = Some \<lparr>pt_address = ''HR:1'', pt_callback = returning 1, pt_interval = 1000\<rparr>
   \<and> isConnected (ps_adapter example_poll) \<and> client (ps_adapter example_poll)
   \<and> parseModbusAddress ''HR:1'' = Inr \<lparr>ma_type = Holding, ma_address = 1, ma_quantity = Some 1\<rparr>
   \<and> reads_in_flight (foldl poll_step example_poll (map (TimerFires 0) [1000, 2000, 3000])) = 3"
proof -
  have h1: "timers (ps_adapter example_poll) 0
      = Some \<lparr>pt_address = ''HR:1'', pt_callback = returning 1, pt_interval = 1000\<rparr>"
    by (simp add: connected_adapter_def polling_adapter_def example_poll_def example_config_def
          connect_def connect_begin_def connect_resume_def newModbusAdapter_def returning_def
          subscribe_def Let_def)
  have h2: "isConnected (ps_adapter example_poll)" and h3: "client (ps_adapter example_poll)"
    by (simp_all add: connected_adapter_def polling_adapter_def example_poll_def
          example_config_def connect_def connect_begin_def connect_resume_def newModbusAdapter_def
          returning_def subscribe_def Let_def isConnected_def)
  have h4: "parseModbusAddress (pt_address \<lparr>pt_address = ''HR:1'', pt_callback = returning 1 :: DataChangeEvent listener,
                pt_interval = 1000\<rparr>)
              = Inr \<lparr>ma_type = Holding, ma_address = 1, ma_quantity = Some 1\<rparr>"
    by (simp add: parse_HR_1)
  have z: "reads_in_flight example_poll = 0"
    by (simp add: example_poll_def reads_in_flight_def)
  from ticks_accumulate [OF h1 h2 h3 h4, of "[1000, 2000, 3000]"] z h1 h2 h3 parse_HR_1
  show ?thesis by simp
qed

section \<open>Connection pool\<close>

text \<open>
  Claim C5 (never more than \<open>maxConnections\<close> resources in use). On the code the
  claim fails: \<^verbatim>\<open>acquire\<close> tests \<^verbatim>\<open>pool.size < maxConnections\<close> before it awaits
  the factory and adds the connection after. With \<open>maxConnections = 1\<close> and an empty
  pool, two calls made one after the other both pass the test (the size is still 0);
  both connections are created, added and handed out: two are in use.
\<close>

theorem acquire_twice_exceeds_maxConnections:
  "maxConnections (options small_pool) = 1
   \<and> snd (acquire small_pool ''id1'') = AwaitFactory ''id1''
   \<and> snd (acquire (fst (acquire small_pool ''id1'')) ''id2'') = AwaitFactory ''id2''
   \<and> snd (createConnection_resume two_calls ''id1'' (Inr 100) 5) = AwaitCreate 0
   \<and> snd (acquire_created first_created 0) = Acquired 0
   \<and> snd (createConnection_resume first_acquired ''id2'' (Inr 200) 6) = AwaitCreate 1
   \<and> snd (acquire_created second_created 1) = Acquired 1
   \<and> pool second_acquired = [Some (''id1'', 0), Some (''id2'', 1)]
   \<and> stats_inUse second_acquired = 2"
  by (simp add: small_pool_def newConnectionPool_def DEFAULT_POOL_OPTIONS_def acquire_def
        acquire_scan_def acquire_validated_def createConnection_resume_def acquire_created_def
        release_def emit_def map_size_def map_delete_def stats_inUse_def two_calls_def
        first_created_def first_acquired_def second_created_def
        second_acquired_def)

text \<open>The rest of claim C5 holds on the code: a call that finds no idle connection in
  a full pool is queued and creates nothing, and its timeout rejects it.\<close>

lemma acquire_at_max_waits:
  assumes "next_idle (conns p) (pool p) 0 = None"
    and "\<not> int (map_size (pool p)) < maxConnections (options p)"
  shows "acquire p newId
           = (p\<lparr>waitQueue := waitQueue p @ [waiters p], waiters := waiters p + 1\<rparr>, Queued (waiters p))"
    and "acquire_timeout (fst (acquire p newId)) (waiters p)
           = (p\<lparr>waitQueue := remove1 (waiters p) (waitQueue p @ [waiters p]), waiters := waiters p + 1\<rparr>,
              Some (Error ''Connection acquire timeout''))"
  using assms by (simp_all add: acquire_def acquire_scan_def acquire_timeout_def)

text \<open>
  What the guard does achieve: when the calls are made in turn, every \<^verbatim>\<open>acquire()\<close>
  run to its end before the next call, the map never holds more than
  \<open>maxConnections\<close> entries, hence never more than that many in use. It is by
  calls that overlap, as above, that the bound is lost.
\<close>

lemma map_size_delete: "map_size (map_delete k es) \<le> map_size es"
  by (induction es) (auto simp: map_size_def map_delete_def split: option.splits)

lemma map_size_set: "map_size (map_set k v es) \<le> map_size es + 1"
  by (induction k v es rule: map_set.induct) (auto simp: map_size_def)

lemma stats_inUse_le_size: "stats_inUse p \<le> map_size (pool p)"
proof -
  have "length (filter (\<lambda>e. case e of None \<Rightarrow> False | Some (k, r) \<Rightarrow> inUse (h r)) es)
          \<le> length (filter (\<lambda>e. e \<noteq> None) es)" for h :: "nat \<Rightarrow> 'a PoolConnection" and es
    by (induction es) (auto split: option.splits)
  then show ?thesis by (simp add: stats_inUse_def map_size_def)
qed

lemma options_scan: "options (fst (acquire_scan p i newId)) = options p"
  by (simp add: acquire_scan_def split: option.splits prod.splits)

lemma options_validated: "options (fst (acquire_validated p i r v now newId)) = options p"
  by (simp add: acquire_validated_def options_scan split: sum.splits bool.splits)

lemma options_created: "options (fst (createConnection_resume p k made now)) = options p"
  by (simp add: createConnection_resume_def Let_def split: sum.splits prod.splits)

lemma task_ok_scan:
  "pool_bounded p \<Longrightarrow> task_ok (fst (acquire_scan p i newId)) (snd (acquire_scan p i newId))"
  by (auto simp: acquire_scan_def task_ok_def pool_bounded_def split: option.splits prod.splits)

lemma task_ok_validated:
  "pool_bounded p \<Longrightarrow>
   task_ok (fst (acquire_validated p i r v now newId)) (snd (acquire_validated p i r v now newId))"
proof (cases v)
  case (Inl e)
  assume b: "pool_bounded p"
  have "pool_bounded (p\<lparr>pool := map_delete (conn_id (conns p r)) (pool p)\<rparr>)"
    using b map_size_delete [of "conn_id (conns p r)" "pool p"] by (simp add: pool_bounded_def)
  then show ?thesis using Inl by (simp add: acquire_validated_def task_ok_scan)
next
  case (Inr ok)
  assume b: "pool_bounded p"
  then show ?thesis using Inr
    by (cases ok) (simp_all add: acquire_validated_def task_ok_scan, simp add: task_ok_def pool_bounded_def)
qed

lemma task_ok_created:
  "task_ok p (AwaitFactory k) \<Longrightarrow>
   task_ok (fst (createConnection_resume p k made now)) (snd (createConnection_resume p k made now))"
  using map_size_set [of k "created p" "pool p"]
  by (auto simp: createConnection_resume_def task_ok_def pool_bounded_def Let_def
           split: sum.splits prod.splits)

lemma acquire_complete_bounded:
  "task_ok p t \<Longrightarrow> pool_bounded (fst (acquire_complete validator made now newId (p, t)))"
proof (induction validator made now newId "(p, t)" arbitrary: p t rule: acquire_complete.induct)
  case (1 validator made now newId p i r)
  let ?x = "acquire_validated p i r (validator (connection (conns p r))) now newId"
  from 1(2) have "pool_bounded p" by (simp add: task_ok_def)
  then have "task_ok (fst ?x) (snd ?x)" by (rule task_ok_validated)
  then have "pool_bounded (fst (acquire_complete validator made now newId (fst ?x, snd ?x)))"
    by (intro 1(1)) simp_all
  then show ?case by simp
next
  case (2 validator made now newId p k)
  let ?x = "createConnection_resume p k made now"
  from 2(2) have "task_ok (fst ?x) (snd ?x)" by (rule task_ok_created)
  then have "pool_bounded (fst (acquire_complete validator made now newId (fst ?x, snd ?x)))"
    by (intro 2(1)) simp_all
  then show ?case by simp
next
  case (3 validator made now newId p r)
  then show ?case by (simp add: acquire_created_def task_ok_def pool_bounded_def)
qed (simp_all add: task_ok_def)

lemma acquire_complete_settled:
  "settled (snd (acquire_complete validator made now newId (p, t)))"
proof (induction validator made now newId "(p, t)" arbitrary: p t rule: acquire_complete.induct)
  case (1 validator made now newId p i r)
  let ?x = "acquire_validated p i r (validator (connection (conns p r))) now newId"
  have "settled (snd (acquire_complete validator made now newId (fst ?x, snd ?x)))"
    by (intro 1) simp
  then show ?case by simp
next
  case (2 validator made now newId p k)
  let ?x = "createConnection_resume p k made now"
  have "settled (snd (acquire_complete validator made now newId (fst ?x, snd ?x)))"
    by (intro 2) simp
  then show ?case by simp
qed (simp_all add: settled_def acquire_created_def)

lemma pool_call_bounded: "pool_bounded p \<Longrightarrow> pool_bounded (pool_call p c)"
proof (cases c)
  case (CallAcquire validator made now newId)
  assume "pool_bounded p"
  then have "task_ok (fst (acquire p newId)) (snd (acquire p newId))"
    unfolding acquire_def by (rule task_ok_scan)
  then have "pool_bounded (fst (acquire_complete validator made now newId
                                  (fst (acquire p newId), snd (acquire p newId))))"
    by (rule acquire_complete_bounded)
  with CallAcquire show ?thesis by simp
next
  case (CallRelease r now)
  assume "pool_bounded p"
  with CallRelease show ?thesis
    by (simp add: release_def pool_bounded_def Let_def split: list.splits prod.splits sum.splits)
next
  case (AcquireTimeout k)
  assume "pool_bounded p"
  with AcquireTimeout show ?thesis by (simp add: acquire_timeout_def pool_bounded_def)
qed

lemma pool_calls_bounded: "pool_bounded p \<Longrightarrow> pool_bounded (pool_calls p cs)"
  by (induction cs arbitrary: p) (simp_all add: pool_call_bounded)

lemma options_complete:
  "options (fst (acquire_complete validator made now newId (p, t))) = options p"
proof (induction validator made now newId "(p, t)" arbitrary: p t rule: acquire_complete.induct)
  case (1 validator made now newId p i r)
  let ?x = "acquire_validated p i r (validator (connection (conns p r))) now newId"
  have "options (fst (acquire_complete validator made now newId (fst ?x, snd ?x))) = options (fst ?x)"
    by (intro 1) simp
  then show ?case by (simp add: options_validated)
next
  case (2 validator made now newId p k)
  let ?x = "createConnection_resume p k made now"
  have "options (fst (acquire_complete validator made now newId (fst ?x, snd ?x))) = options (fst ?x)"
    by (intro 2) simp
  then show ?case by (simp add: options_created)
qed (simp_all add: acquire_created_def)

lemma options_call: "options (pool_call p c) = options p"
proof (cases c)
  case (CallAcquire validator made now newId)
  have "options (fst (acquire_complete validator made now newId
                        (fst (acquire p newId), snd (acquire p newId)))) = options (fst (acquire p newId))"
    by (rule options_complete)
  with CallAcquire show ?thesis by (simp add: acquire_def options_scan)
next
  case (CallRelease r now)
  then show ?thesis
    by (simp add: release_def Let_def split: list.splits prod.splits sum.splits)
next
  case (AcquireTimeout k)
  then show ?thesis by (simp add: acquire_timeout_def)
qed

lemma options_calls: "options (pool_calls p cs) = options p"
  by (induction cs arbitrary: p) (simp_all add: options_call)

lemma calls_in_turn_respect_maxConnections:
  assumes "0 \<le> maxConnections opts"
  shows "int (stats_inUse (pool_calls (newConnectionPool opts dflt) cs)) \<le> maxConnections opts"
proof -
  let ?p = "pool_calls (newConnectionPool opts dflt) cs"
  have "pool_bounded (newConnectionPool opts dflt)"
    using assms by (simp add: pool_bounded_def newConnectionPool_def map_size_def)
  then have "pool_bounded ?p" by (rule pool_calls_bounded)
  moreover have "options ?p = opts"
    by (simp add: options_calls newConnectionPool_def)
  ultimately have "int (map_size (pool ?p)) \<le> maxConnections opts"
    by (simp add: pool_bounded_def)
  with stats_inUse_le_size [of ?p] show ?thesis by simp
qed

text \<open>
  Claim C6 (an idle resource found invalid during the scan is evicted at once). On
  the code the claim fails: a connection whose validator resolves to \<open>false\<close> is
  passed over and stays in the map; only a validator that throws has its connection
  deleted. Here the pool holds one idle connection and is full: after the validator
  said \<open>false\<close> the map is unchanged and the call is queued behind a connection that
  is never handed out; had the validator thrown, the entry would be gone.
\<close>

theorem acquire_invalid_not_evicted:
  "pool idle_pool = [Some (''id1'', 0)]
   \<and> inUse (conns idle_pool 0) = False
   \<and> snd (acquire idle_pool ''id2'') = AwaitValidator 1 0
   \<and> snd (acquire_validated idle_pool 1 0 (Inr False) 8 ''id2'') = Queued 0
   \<and> pool (fst (acquire_validated idle_pool 1 0 (Inr False) 8 ''id2'')) = [Some (''id1'', 0)]
   \<and> pool (fst (acquire_validated idle_pool 1 0 (Inl (Error ''broken'')) 8 ''id2'')) = [None]"
  by (simp add: small_pool_def newConnectionPool_def DEFAULT_POOL_OPTIONS_def acquire_def
        acquire_scan_def acquire_validated_def createConnection_resume_def acquire_created_def
        release_def emit_def map_size_def map_delete_def stats_inUse_def idle_pool_def)

text \<open>The rest of claim C6 holds on the code: the scan hands out a connection only
  after its validator resolved to \<open>true\<close>.\<close>

lemma acquire_scan_not_acquired: "snd (acquire_scan p i newId) \<noteq> Acquired r"
  by (simp add: acquire_scan_def split: option.splits prod.splits)

lemma acquire_validated_only_valid:
  "snd (acquire_validated p i r isValid now newId) = Acquired r' \<Longrightarrow> isValid = Inr True \<and> r' = r"
  by (auto simp: acquire_validated_def acquire_scan_not_acquired split: sum.splits bool.splits)

end
